theory Spec2Isabelle
  imports Complex_Main
begin

text \<open>
  A shallow embedding of the table-to-record extraction of the sales-report bot: the
  grid preprocessor, the record pipeline and the display transformation of
  \<open>server.js\<close>, and the date parser, the quantity parser and the header scan of the
  Excel migration script.  Effects are explicit: the file of daily records and the
  clock are arguments of \<open>recordDailyData\<close>, and the database of the migration script
  is a parameter.  Console output is left out.
\<close>


section \<open>JavaScript strings and table cells\<close>

text \<open>
  A JavaScript string is a sequence of UTF-16 code units.  All Thai literals of the
  sources lie in the Basic Multilingual Plane, so one code unit is one character there.
  ASCII literals are written through \<open>asc\<close>.
\<close>

type_synonym jsstr = "nat list"

definition asc :: "string \<Rightarrow> jsstr" where
  "asc s = map of_char s"

text \<open>White space as \<open>String.prototype.trim\<close>, \<open>parseFloat\<close> and the regular
  expression class \<open>\\s\<close> see it: TAB, LF, VT, FF, CR, SP, NBSP, U+1680, U+2000..U+200A,
  U+2028, U+2029, U+202F, U+205F, U+3000 and U+FEFF.\<close>

definition is_ws :: "nat \<Rightarrow> bool" where
  "is_ws c = (c = 9 \<or> c = 10 \<or> c = 11 \<or> c = 12 \<or> c = 13 \<or> c = 32 \<or> c = 160 \<or> c = 5760
     \<or> (8192 \<le> c \<and> c \<le> 8202) \<or> c = 8232 \<or> c = 8233 \<or> c = 8239 \<or> c = 8287
     \<or> c = 12288 \<or> c = 65279)"

definition trim :: "jsstr \<Rightarrow> jsstr" where
  "trim s = rev (dropWhile is_ws (rev (dropWhile is_ws s)))"

text \<open>\<open>s.includes(sub)\<close>: \<open>sub\<close> occurs in \<open>s\<close> as a contiguous run.\<close>

fun startsWith :: "jsstr \<Rightarrow> jsstr \<Rightarrow> bool" where
  "startsWith s [] = True"
| "startsWith [] (p # ps) = False"
| "startsWith (c # cs) (p # ps) = (c = p \<and> startsWith cs ps)"

fun includesStr :: "jsstr \<Rightarrow> jsstr \<Rightarrow> bool" where
  "includesStr [] sub = (sub = [])"
| "includesStr (c # cs) sub = (startsWith (c # cs) sub \<or> includesStr cs sub)"

text \<open>
  \<open>toLowerCase\<close> on the ASCII letters.  The only characters outside ASCII whose lower
  case contains an ASCII letter are U+0130 (giving \<open>i\<close>) and U+212A (giving \<open>k\<close>); no
  needle that the sources search for after lowering (\<open>total\<close>, \<open>grand total\<close>,
  \<open>sum\<close>, \<open>date\<close> and the Thai words) contains \<open>i\<close> or \<open>k\<close>, and no character's lower
  case is a Thai letter, so for these searches the ASCII mapping decides exactly what
  the full Unicode mapping decides.
\<close>

definition lowerUnit :: "nat \<Rightarrow> nat" where
  "lowerUnit c = (if 65 \<le> c \<and> c \<le> 90 then c + 32 else c)"

definition toLowerCase :: "jsstr \<Rightarrow> jsstr" where
  "toLowerCase s = map lowerUnit s"

text \<open>\<open>s.replace(/,/g, '')\<close>\<close>

definition stripCommas :: "jsstr \<Rightarrow> jsstr" where
  "stripCommas s = filter (\<lambda>c. c \<noteq> 44) s"

text \<open>
  A cell of an OCR table (\<open>server.js\<close>, \<open>performOCR\<close>) is a string; reading a row
  beyond its length, or a hole that an indexed assignment left, gives \<open>undefined\<close>.
\<close>

datatype cell = Undefined | Str jsstr

type_synonym row = "cell list"
type_synonym table = "row list"

text \<open>\<open>row[i]\<close>\<close>

definition cellAt :: "row \<Rightarrow> nat \<Rightarrow> cell" where
  "cellAt r i = (if i < length r then r ! i else Undefined)"

text \<open>Truthiness of \<open>row[i]\<close>: \<open>undefined\<close> and the empty string are falsy.\<close>

fun truthy :: "cell \<Rightarrow> bool" where
  "truthy Undefined = False"
| "truthy (Str s) = (s \<noteq> [])"

text \<open>\<open>row[i] ? row[i].toString() : ''\<close>\<close>

fun cellText :: "cell \<Rightarrow> jsstr" where
  "cellText Undefined = []"
| "cellText (Str s) = s"

text \<open>\<open>row[i] = v\<close>: an assignment beyond the end extends the array, leaving holes.\<close>

definition setCell :: "row \<Rightarrow> nat \<Rightarrow> cell \<Rightarrow> row" where
  "setCell r i v =
     (if i < length r then r[i := v] else r @ replicate (i - length r) Undefined @ [v])"

section \<open>Grid preprocessor: \<open>preprocessTableData\<close> (server.js)\<close>

text \<open>
  One fill-down loop of \<open>preprocessTableData\<close> for column \<open>c\<close>; \<open>lastValue\<close> is
  \<open>lastC0Value\<close> (\<open>lastC1Value\<close>), \<open>None\<close> for \<open>null\<close>.  A truthy cell is never
  written; it becomes the carry when its trimmed text is non-empty.  A falsy cell is
  overwritten when the carry is truthy.
\<close>

fun fillDownLoop :: "nat \<Rightarrow> jsstr option \<Rightarrow> table \<Rightarrow> table" where
  "fillDownLoop c lastValue [] = []"
| "fillDownLoop c lastValue (r # rs) =
     (if truthy (cellAt r c) then
        (let v = trim (cellText (cellAt r c))
         in r # fillDownLoop c (if v \<noteq> [] then Some v else lastValue) rs)
      else
        (case lastValue of
           Some v \<Rightarrow>
             (if v \<noteq> [] then setCell r c (Str v) # fillDownLoop c lastValue rs
              else r # fillDownLoop c lastValue rs)
         | None \<Rightarrow> r # fillDownLoop c lastValue rs))"

definition preprocessTable :: "table \<Rightarrow> table" where
  "preprocessTable t =
     (if t = [] then t else fillDownLoop 1 None (fillDownLoop 0 None t))"

definition preprocessTableData :: "table list \<Rightarrow> table list" where
  "preprocessTableData tableData = map preprocessTable tableData"

text \<open>
  The carry that the claim describes, written independently of the loop, over the cells
  of one column: the trimmed text of the last cell whose trimmed text is non-empty.
\<close>

definition column :: "nat \<Rightarrow> table \<Rightarrow> cell list" where
  "column c t = map (\<lambda>r. cellAt r c) t"

definition nonBlank :: "cell \<Rightarrow> bool" where
  "nonBlank x = (trim (cellText x) \<noteq> [])"

definition carryOf :: "cell list \<Rightarrow> jsstr option" where
  "carryOf xs =
     (case filter nonBlank xs of
        [] \<Rightarrow> None
      | y # ys \<Rightarrow> Some (trim (cellText (last (y # ys)))))"

text \<open>
  Fill-down as the specification words it (section 4.2): a cell is empty when its
  trimmed text is the empty string, and an empty cell takes the nearest preceding
  non-empty value of the column as it stands.
\<close>

fun specFillDown :: "cell option \<Rightarrow> cell list \<Rightarrow> cell list" where
  "specFillDown carry [] = []"
| "specFillDown carry (x # xs) =
     (if trim (cellText x) = [] then
        (case carry of Some v \<Rightarrow> v | None \<Rightarrow> x) # specFillDown carry xs
      else x # specFillDown (Some x) xs)"

section \<open>JavaScript numbers\<close>

text \<open>
  A JavaScript number is \<open>NaN\<close>, an infinity or a finite double.  Finite values are
  modelled by the rational they denote: the rounding of a decimal literal and of a sum
  to the nearest double is not modelled, so the model computes exactly what JavaScript
  computes wherever the values and their partial sums are doubles (all integers below
  \<open>2^53\<close> in magnitude, in particular), and negative zero is identified with zero
  (\<open>-0 === 0\<close>, \<open>-0 || 0\<close> and \<open>-0 > 0\<close> behave as for \<open>0\<close>).
\<close>

datatype jsnum = NaN | PosInf | NegInf | Fin rat

text \<open>\<open>a + b\<close> on numbers\<close>

fun jsadd :: "jsnum \<Rightarrow> jsnum \<Rightarrow> jsnum" where
  "jsadd NaN b = NaN"
| "jsadd a NaN = NaN"
| "jsadd PosInf NegInf = NaN"
| "jsadd NegInf PosInf = NaN"
| "jsadd PosInf b = PosInf"
| "jsadd a PosInf = PosInf"
| "jsadd NegInf b = NegInf"
| "jsadd a NegInf = NegInf"
| "jsadd (Fin x) (Fin y) = Fin (x + y)"

text \<open>\<open>x || 0\<close>: \<open>NaN\<close> and \<open>0\<close> are falsy.\<close>

fun orZero :: "jsnum \<Rightarrow> jsnum" where
  "orZero NaN = Fin 0"
| "orZero x = x"

text \<open>\<open>x > 0\<close> and \<open>x === 0\<close>\<close>

fun gtZero :: "jsnum \<Rightarrow> bool" where
  "gtZero PosInf = True"
| "gtZero (Fin x) = (0 < x)"
| "gtZero x = False"

definition isZero :: "jsnum \<Rightarrow> bool" where
  "isZero x = (x = Fin 0)"

text \<open>\<open>Math.round\<close>: the nearest integer, a half rounding towards \<open>+\<infinity>\<close>; \<open>NaN\<close> and
  the infinities are returned as they are.\<close>

fun mathRound :: "jsnum \<Rightarrow> jsnum" where
  "mathRound (Fin x) = Fin (of_int \<lfloor>x + 1 / 2\<rfloor>)"
| "mathRound x = x"

text \<open>\<open>isNaN\<close>\<close>

definition isNaN :: "jsnum \<Rightarrow> bool" where
  "isNaN x = (x = NaN)"

definition isDigit :: "nat \<Rightarrow> bool" where
  "isDigit c = (48 \<le> c \<and> c \<le> 57)"

text \<open>The value of a run of decimal digits.\<close>

definition digitsVal :: "jsstr \<Rightarrow> nat" where
  "digitsVal ds = foldl (\<lambda>acc c. 10 * acc + (c - 48)) 0 ds"

text \<open>
  The exponent part that \<open>parseFloat\<close> accepts after the mantissa: \<open>e\<close> or \<open>E\<close>, an
  optional sign and at least one digit; anything else is not consumed and counts as
  exponent zero.
\<close>

definition exponentPart :: "jsstr \<Rightarrow> int" where
  "exponentPart s =
     (case s of
        [] \<Rightarrow> 0
      | c # r \<Rightarrow>
          if c = 101 \<or> c = 69 then
            (case r of
               [] \<Rightarrow> 0
             | d # r' \<Rightarrow>
                 if d = 45 then
                   (if takeWhile isDigit r' = [] then 0
                    else - int (digitsVal (takeWhile isDigit r')))
                 else if d = 43 then int (digitsVal (takeWhile isDigit r'))
                 else int (digitsVal (takeWhile isDigit r)))
          else 0)"

definition scale10 :: "rat \<Rightarrow> int \<Rightarrow> rat" where
  "scale10 m e = (if 0 \<le> e then m * 10 ^ nat e else m / 10 ^ nat (- e))"

text \<open>
  \<open>parseFloat(s)\<close>: leading white space is skipped, then the longest prefix that is a
  decimal literal is read (an optional sign, then \<open>Infinity\<close> or digits with an
  optional fraction and exponent); \<open>NaN\<close> when there is no such prefix.
\<close>

definition unsignedFloat :: "jsstr \<Rightarrow> jsnum" where
  "unsignedFloat u =
     (if startsWith u (asc ''Infinity'') then PosInf
      else
        (let ip = takeWhile isDigit u;
             r1 = dropWhile isDigit u;
             fp = (case r1 of [] \<Rightarrow> [] | c # r \<Rightarrow> if c = 46 then takeWhile isDigit r else []);
             r2 = (case r1 of [] \<Rightarrow> [] | c # r \<Rightarrow> if c = 46 then dropWhile isDigit r else r1)
         in if ip = [] \<and> fp = [] then NaN
            else Fin (scale10 (of_nat (digitsVal (ip @ fp)) / 10 ^ length fp)
                        (exponentPart r2))))"

fun negate :: "jsnum \<Rightarrow> jsnum" where
  "negate NaN = NaN"
| "negate PosInf = NegInf"
| "negate NegInf = PosInf"
| "negate (Fin x) = Fin (- x)"

definition parseFloat :: "jsstr \<Rightarrow> jsnum" where
  "parseFloat s =
     (case dropWhile is_ws s of
        [] \<Rightarrow> NaN
      | c # r \<Rightarrow>
          if c = 45 then negate (unsignedFloat r)
          else if c = 43 then unsignedFloat r
          else unsignedFloat (c # r))"

section \<open>The record pipeline: \<open>recordDailyData\<close> (server.js)\<close>

subsection \<open>String constants of the source\<close>

text \<open>Thai literals, as their UTF-16 code units (all in U+0E00..U+0E7F).\<close>

definition thBangBuaThong :: jsstr where \<comment> \<open>short name "Bang Bua Thong"\<close>
  "thBangBuaThong = [3610, 3634, 3591, 3610, 3633, 3623, 3607, 3629, 3591]"

definition thNakhonRatchasima :: jsstr where \<comment> \<open>"Nakhon Ratchasima"\<close>
  "thNakhonRatchasima = [3609, 3588, 3619, 3619, 3634, 3594, 3626, 3637, 3617, 3634]"

definition thNakhonSawan :: jsstr where \<comment> \<open>"Nakhon Sawan"\<close>
  "thNakhonSawan = [3609, 3588, 3619, 3626, 3623, 3619, 3619, 3588, 3660]"

definition thChonburi :: jsstr where \<comment> \<open>"Chonburi"\<close>
  "thChonburi = [3594, 3621, 3610, 3640, 3619, 3637]"

definition thMahachai :: jsstr where \<comment> \<open>short name "Mahachai"\<close>
  "thMahachai = [3617, 3627, 3634, 3594, 3633, 3618]"

definition thSuvarnabhumi :: jsstr where \<comment> \<open>short name "Suvarnabhumi"\<close>
  "thSuvarnabhumi = [3626, 3640, 3623, 3619, 3619, 3603, 3616, 3641, 3617, 3636]"

definition thHadyai :: jsstr where \<comment> \<open>"Hat Yai"\<close>
  "thHadyai = [3627, 3634, 3604, 3651, 3627, 3597, 3656]"

definition thPhuket :: jsstr where \<comment> \<open>"Phuket"\<close>
  "thPhuket = [3616, 3641, 3648, 3585, 3655, 3605]"

definition thChiangMai :: jsstr where \<comment> \<open>"Chiang Mai"\<close>
  "thChiangMai = [3648, 3594, 3637, 3618, 3591, 3651, 3627, 3617, 3656]"

definition thSurat :: jsstr where \<comment> \<open>"Surat"\<close>
  "thSurat = [3626, 3640, 3619, 3634, 3625, 3598, 3619, 3660]"

definition thKhonKaen :: jsstr where \<comment> \<open>"Khon Kaen"\<close>
  "thKhonKaen = [3586, 3629, 3609, 3649, 3585, 3656, 3609]"

definition thKhlang :: jsstr where \<comment> \<open>the prefix "khlang" (depot)\<close>
  "thKhlang = [3588, 3621, 3633, 3591]"

definition thRuam :: jsstr where \<comment> \<open>"ruam" (total)\<close>
  "thRuam = [3619, 3623, 3617]"

definition thYotRuam :: jsstr where \<comment> \<open>"yot ruam" (grand total)\<close>
  "thYotRuam = [3618, 3629, 3604, 3619, 3623, 3617]"

definition thWanThi :: jsstr where \<comment> \<open>"wan thi" (date)\<close>
  "thWanThi = [3623, 3633, 3609, 3607, 3637, 3656]"

text \<open>\<open>cdcNames\<close>, in the order of the source.\<close>

definition cdcNames :: "jsstr list" where
  "cdcNames =
     [thBangBuaThong, thNakhonRatchasima, thNakhonSawan, thChonburi, thMahachai,
      thSuvarnabhumi, thHadyai, thPhuket, thChiangMai, thSurat, thKhonKaen]"

text \<open>\<open>cdcNameMapping\<close>: three locations carry the depot prefix in their full name.\<close>

definition cdcNameMapping :: "jsstr \<Rightarrow> jsstr" where
  "cdcNameMapping n =
     (if n = thBangBuaThong \<or> n = thMahachai \<or> n = thSuvarnabhumi then thKhlang @ n else n)"

text \<open>\<open>Object.values(cdcNameMapping)\<close>\<close>

definition cdcFullNames :: "jsstr list" where
  "cdcFullNames = map cdcNameMapping cdcNames"

subsection \<open>Records and the store\<close>

datatype category = Orange | Yuzu

text \<open>\<open>cdcConfig[category].column\<close>\<close>

fun categoryColumn :: "category \<Rightarrow> nat" where
  "categoryColumn Orange = 2"
| "categoryColumn Yuzu = 3"

text \<open>
  The object \<open>cdcTotals\<close> is an association list in insertion order; the two
  Orange-only fields are \<open>None\<close> for \<open>undefined\<close>.
\<close>

record dailyRecord =
  date :: jsstr
  timestamp :: jsstr
  fc33HadyaiSum :: jsnum
  totalSum :: jsnum
  cdcTotals :: "(jsstr \<times> jsnum) list"
  khonKaenLaos :: "jsnum option"
  khonKaenCambodia :: "jsnum option"

text \<open>The contents of \<open>daily_records.json\<close>.\<close>

record dailyRecords =
  orange :: "dailyRecord list"
  yuzu :: "dailyRecord list"

text \<open>\<open>records[category]\<close> and \<open>records[category].push(r)\<close>\<close>

fun recordsOf :: "dailyRecords \<Rightarrow> category \<Rightarrow> dailyRecord list" where
  "recordsOf rs Orange = orange rs"
| "recordsOf rs Yuzu = yuzu rs"

fun pushRecord :: "dailyRecords \<Rightarrow> category \<Rightarrow> dailyRecord \<Rightarrow> dailyRecords" where
  "pushRecord rs Orange r = rs\<lparr>orange := orange rs @ [r]\<rparr>"
| "pushRecord rs Yuzu r = rs\<lparr>yuzu := yuzu rs @ [r]\<rparr>"

definition isDateRecorded :: "dailyRecords \<Rightarrow> jsstr \<Rightarrow> category \<Rightarrow> bool" where
  "isDateRecorded rs d c = list_ex (\<lambda>r. date r = d) (recordsOf rs c)"

datatype reason =
    NoTableData \<comment> \<open>'No table data found'\<close>
  | ValidationFailed \<comment> \<open>'Both FC33 ... and FC07 ... C2 sums are 0 (validation failed)'\<close>
  | NoDateFound \<comment> \<open>'No date found in table or extracted text'\<close>

text \<open>The returned object: \<open>{success: false, reason}\<close> or \<open>{success: true, date, results}\<close>.\<close>

datatype recordResult =
    Failure reason
  | Success jsstr "(category \<times> dailyRecord) list"

subsection \<open>The validation sums\<close>

text \<open>\<open>row[i] ? row[i].toString().trim() : ''\<close>\<close>

definition trimmedCell :: "row \<Rightarrow> nat \<Rightarrow> jsstr" where
  "trimmedCell r i = (if truthy (cellAt r i) then trim (cellText (cellAt r i)) else [])"

text \<open>\<open>parseFloat(row[i].toString().replace(/,/g, '')) || 0\<close>, for a truthy cell.\<close>

definition cellNumber :: "row \<Rightarrow> nat \<Rightarrow> jsnum" where
  "cellNumber r i = orZero (parseFloat (stripCommas (cellText (cellAt r i))))"

text \<open>\<open>row[2] ? row[2].toString().replace(/,/g, '') : '0'\<close>, then \<open>parseFloat(...) || 0\<close>.\<close>

definition c2Value :: "row \<Rightarrow> jsnum" where
  "c2Value r =
     orZero (parseFloat (if truthy (cellAt r 2) then stripCommas (cellText (cellAt r 2))
                         else asc ''0''))"

text \<open>One step of the first \<open>forEach\<close>: the pair is \<open>(hadyaiSum, phuketSum)\<close>.\<close>

definition validationStep :: "jsnum \<times> jsnum \<Rightarrow> row \<Rightarrow> jsnum \<times> jsnum" where
  "validationStep acc r =
     (if length r < 3 then acc
      else
        (let c0Cell = trimmedCell r 0;
             h = (if includesStr c0Cell (asc ''FC33'') \<and> includesStr c0Cell thHadyai
                  then jsadd (fst acc) (c2Value r) else fst acc);
             p = (if includesStr c0Cell (asc ''FC07'')
                  then jsadd (snd acc) (c2Value r) else snd acc)
         in (h, p)))"

definition validationSums :: "table \<Rightarrow> jsnum \<times> jsnum" where
  "validationSums t = foldl validationStep (Fin 0, Fin 0) t"

subsection \<open>The date search\<close>

text \<open>
  The regular expression \<open>/(?:wanthi\\s*)?(\\d{1,2}\\/\\d{1,2}\\/\\d{4})/\<close> (with the Thai word
  for "date" as \<open>wanthi\<close>).  \<open>digitRuns12\<close> lists the ways \<open>\\d{1,2}\<close> can match at the
  head of a string, the greedy one first, each with the rest of the string.
\<close>

definition digitRuns12 :: "jsstr \<Rightarrow> (jsstr \<times> jsstr) list" where
  "digitRuns12 s =
     (case s of
        [] \<Rightarrow> []
      | a # r \<Rightarrow>
          if isDigit a then
            (case r of
               [] \<Rightarrow> [([a], r)]
             | b # r' \<Rightarrow> if isDigit b then [([a, b], r'), ([a], r)] else [([a], r)])
          else [])"

definition slashThen :: "jsstr \<Rightarrow> jsstr list" where
  "slashThen s = (case s of [] \<Rightarrow> [] | c # r \<Rightarrow> if c = 47 then [r] else [])"

definition fourDigits :: "jsstr \<Rightarrow> jsstr list" where
  "fourDigits s = (if 4 \<le> length s \<and> list_all isDigit (take 4 s) then [take 4 s] else [])"

text \<open>
  The ways \<open>\\d{1,2}\\/\\d{1,2}\\/year\<close> can match at the head of \<open>s\<close>, in backtracking
  order: day, month and year, where \<open>year\<close> lists the matches of the last part.
\<close>

definition dateParts :: "(jsstr \<Rightarrow> jsstr list) \<Rightarrow> jsstr \<Rightarrow> (jsstr \<times> jsstr \<times> jsstr) list" where
  "dateParts year s =
     [(d, m, y). (d, r1) \<leftarrow> digitRuns12 s, r2 \<leftarrow> slashThen r1, (m, r3) \<leftarrow> digitRuns12 r2,
                 r4 \<leftarrow> slashThen r3, y \<leftarrow> year r4]"

text \<open>The capture group at the head of \<open>s\<close>: the first match in backtracking order.\<close>

definition matchDate :: "jsstr \<Rightarrow> jsstr option" where
  "matchDate s =
     (case dateParts fourDigits s of
        [] \<Rightarrow> None
      | (d, m, y) # rest \<Rightarrow> Some (d @ [47] @ m @ [47] @ y))"

text \<open>
  The whole expression at the head of \<open>s\<close>: with the optional word first, then without.
  After the word, \<open>\\s*\<close> takes all the white space: giving some back leaves a white
  space character where a digit is needed, so no other split can match.
\<close>

definition matchDateAt :: "jsstr \<Rightarrow> jsstr option" where
  "matchDateAt s =
     (case (if startsWith s thWanThi
            then matchDate (dropWhile is_ws (drop (length thWanThi) s)) else None) of
        Some d \<Rightarrow> Some d
      | None \<Rightarrow> matchDate s)"

text \<open>\<open>text.match(re)\<close>, then \<open>match[1]\<close>: the leftmost position where the expression
  matches.\<close>

fun searchDate :: "jsstr \<Rightarrow> jsstr option" where
  "searchDate [] = matchDateAt []"
| "searchDate (c # cs) =
     (case matchDateAt (c # cs) of Some d \<Rightarrow> Some d | None \<Rightarrow> searchDate cs)"

text \<open>The nested iteration over the table: the first cell, in row-major order, with a
  match.\<close>

fun firstSome :: "('a \<Rightarrow> 'b option) \<Rightarrow> 'a list \<Rightarrow> 'b option" where
  "firstSome f [] = None"
| "firstSome f (x # xs) = (case f x of Some y \<Rightarrow> Some y | None \<Rightarrow> firstSome f xs)"

definition findDateInTable :: "table \<Rightarrow> jsstr option" where
  "findDateInTable t =
     firstSome (\<lambda>r. firstSome (\<lambda>c. searchDate (if truthy c then cellText c else [])) r) t"

definition extractDate :: "table \<Rightarrow> jsstr \<Rightarrow> jsstr option" where
  "extractDate t extractedText =
     (case (if extractedText \<noteq> [] then searchDate extractedText else None) of
        Some d \<Rightarrow> Some d
      | None \<Rightarrow> findDateInTable t)"

subsection \<open>The grand total\<close>

definition totalIndicators :: "jsstr list" where
  "totalIndicators = [thYotRuam, thRuam, asc ''total'', asc ''grand total'', asc ''sum'']"

definition foundTotal :: "row \<Rightarrow> bool" where
  "foundTotal r =
     list_ex (\<lambda>indicator.
        includesStr (toLowerCase (trimmedCell r 0)) (toLowerCase indicator) \<or>
        includesStr (toLowerCase (trimmedCell r 1)) (toLowerCase indicator)) totalIndicators"

text \<open>
  The first loop: the first row of at least two cells that names a total and has a
  truthy cell in the value column gives \<open>totalSum\<close> and ends the loop; \<open>0\<close> otherwise.
\<close>

fun searchTotalRow :: "nat \<Rightarrow> table \<Rightarrow> jsnum" where
  "searchTotalRow columnIndex [] = Fin 0"
| "searchTotalRow columnIndex (r # rs) =
     (if length r < 2 then searchTotalRow columnIndex rs
      else if foundTotal r \<and> truthy (cellAt r columnIndex) then cellNumber r columnIndex
      else searchTotalRow columnIndex rs)"

text \<open>The second loop, entered when \<open>totalSum === 0\<close>: every positive value of the
  column is added, whatever the row is.\<close>

definition columnSumStep :: "nat \<Rightarrow> jsnum \<Rightarrow> row \<Rightarrow> jsnum" where
  "columnSumStep columnIndex acc r =
     (if \<not> truthy (cellAt r columnIndex) then acc
      else
        (let v = orZero (parseFloat (trim (stripCommas (cellText (cellAt r columnIndex)))))
         in if gtZero v then jsadd acc v else acc))"

definition computeTotalSum :: "nat \<Rightarrow> table \<Rightarrow> jsnum" where
  "computeTotalSum columnIndex t =
     (let found = searchTotalRow columnIndex t
      in if isZero found then foldl (columnSumStep columnIndex) found t else found)"

subsection \<open>The per-location totals\<close>

text \<open>\<open>cdcTotals[fullCdcName] += value\<close>; on a missing key JavaScript would store
  \<open>undefined + value\<close>, which is \<open>NaN\<close>.\<close>

definition addTo :: "(jsstr \<times> jsnum) list \<Rightarrow> jsstr \<Rightarrow> jsnum \<Rightarrow> (jsstr \<times> jsnum) list" where
  "addTo totals k v =
     (if k \<in> fst ` set totals
      then map (\<lambda>(k', x). if k' = k then (k', jsadd x v) else (k', x)) totals
      else totals @ [(k, NaN)])"

text \<open>The column searched for a location name in \<open>recordDailyData\<close>: the source makes
  the depot of Bang Bua Thong an exception to the prefix rule.\<close>

definition recordSearchColumn :: "jsstr \<Rightarrow> nat" where
  "recordSearchColumn fullCdcName =
     (if fullCdcName = thKhlang @ thBangBuaThong then 0
      else if startsWith fullCdcName thKhlang then 1
      else 0)"

text \<open>The column searched in \<open>transformTableData\<close>: the prefix rule alone.\<close>

definition displaySearchColumn :: "jsstr \<Rightarrow> nat" where
  "displaySearchColumn fullCdcName = (if startsWith fullCdcName thKhlang then 1 else 0)"

text \<open>
  The body of the inner \<open>cdcNames.forEach\<close>, the same text in both functions but for
  the choice of the search column, which is the parameter \<open>searchColumn\<close>.
\<close>

definition cdcNameStep ::
  "(jsstr \<Rightarrow> nat) \<Rightarrow> nat \<Rightarrow> row \<Rightarrow> (jsstr \<times> jsnum) list \<Rightarrow> jsstr \<Rightarrow> (jsstr \<times> jsnum) list" where
  "cdcNameStep searchColumn columnIndex r totals cdcName =
     (let fullCdcName = cdcNameMapping cdcName;
          searchCell = trimmedCell r (searchColumn fullCdcName)
      in if includesStr searchCell cdcName \<and> truthy (cellAt r columnIndex)
            \<and> gtZero (cellNumber r columnIndex)
         then addTo totals fullCdcName (cellNumber r columnIndex)
         else totals)"

definition cdcRowStep ::
  "(jsstr \<Rightarrow> nat) \<Rightarrow> nat \<Rightarrow> (jsstr \<times> jsnum) list \<Rightarrow> row \<Rightarrow> (jsstr \<times> jsnum) list" where
  "cdcRowStep searchColumn columnIndex totals r =
     (if length r < 2 then totals
      else foldl (cdcNameStep searchColumn columnIndex r) totals cdcNames)"

definition accumulateCdc ::
  "(jsstr \<Rightarrow> nat) \<Rightarrow> nat \<Rightarrow> (jsstr \<times> jsnum) list \<Rightarrow> table \<Rightarrow> (jsstr \<times> jsnum) list" where
  "accumulateCdc searchColumn columnIndex init t =
     foldl (cdcRowStep searchColumn columnIndex) init t"

definition computeCdcTotals :: "nat \<Rightarrow> table \<Rightarrow> (jsstr \<times> jsnum) list" where
  "computeCdcTotals columnIndex t =
     accumulateCdc recordSearchColumn columnIndex (map (\<lambda>n. (n, Fin 0)) cdcFullNames) t"

subsection \<open>The Laos value (Orange only)\<close>

text \<open>The loop runs from the last row upwards and stops at the first row that names
  Khon Kaen in column 0 and has a truthy cell in column 2.\<close>

fun searchLaos :: "table \<Rightarrow> jsnum" where
  "searchLaos [] = Fin 0"
| "searchLaos (r # rs) =
     (if truthy (cellAt r 0) \<and> includesStr (trim (cellText (cellAt r 0))) thKhonKaen
         \<and> truthy (cellAt r 2)
      then cellNumber r 2 else searchLaos rs)"

definition khonKaenLaosValue :: "table \<Rightarrow> jsnum" where
  "khonKaenLaosValue t = searchLaos (rev t)"

subsection \<open>\<open>recordDailyData\<close>\<close>

definition buildRecord :: "jsstr \<Rightarrow> jsstr \<Rightarrow> jsnum \<Rightarrow> table \<Rightarrow> category \<Rightarrow> dailyRecord" where
  "buildRecord dateStr now hadyaiSum t cat =
     \<lparr> date = dateStr,
       timestamp = now,
       fc33HadyaiSum = hadyaiSum,
       totalSum = computeTotalSum (categoryColumn cat) t,
       cdcTotals = computeCdcTotals (categoryColumn cat) t,
       khonKaenLaos = (if cat = Orange then Some (khonKaenLaosValue t) else None),
       khonKaenCambodia = (if cat = Orange then Some (Fin 0) else None) \<rparr>"

text \<open>One pass of the loop over the categories; the state is \<open>records\<close> and \<open>results\<close>.
  \<open>now cat\<close> is the clock reading when the record of \<open>cat\<close> is built.\<close>

definition categoryStep ::
  "jsstr \<Rightarrow> (category \<Rightarrow> jsstr) \<Rightarrow> jsnum \<Rightarrow> table \<Rightarrow>
   dailyRecords \<times> (category \<times> dailyRecord) list \<Rightarrow> category \<Rightarrow>
   dailyRecords \<times> (category \<times> dailyRecord) list" where
  "categoryStep dateStr now hadyaiSum t st cat =
     (if isDateRecorded (fst st) dateStr cat then st
      else
        (let r = buildRecord dateStr (now cat) hadyaiSum t cat
         in (pushRecord (fst st) cat r, snd st @ [(cat, r)])))"

text \<open>
  \<open>recordDailyData(tableData, extractedText)\<close>, with the file of records and the clock
  made explicit: the result and the file contents after the call.  The checks come in
  the order of the source: table data, validation sums, date.
\<close>

definition recordDailyData ::
  "dailyRecords \<Rightarrow> (category \<Rightarrow> jsstr) \<Rightarrow> table list \<Rightarrow> jsstr \<Rightarrow> recordResult \<times> dailyRecords" where
  "recordDailyData records now tableData extractedText =
     (case tableData of
        [] \<Rightarrow> (Failure NoTableData, records)
      | t # others \<Rightarrow>
          (let hadyaiSum = fst (validationSums t);
               phuketSum = snd (validationSums t)
           in if isZero hadyaiSum \<and> isZero phuketSum then (Failure ValidationFailed, records)
              else
                (case extractDate t extractedText of
                   None \<Rightarrow> (Failure NoDateFound, records)
                 | Some dateStr \<Rightarrow>
                     (let st = foldl (categoryStep dateStr now hadyaiSum t) (records, [])
                                 [Orange, Yuzu]
                      in (Success dateStr (snd st), fst st)))))"

section \<open>The display transformation: \<open>transformTableData\<close> (server.js)\<close>

definition cdcOrder :: "jsstr list" where
  "cdcOrder =
     [thKhlang @ thBangBuaThong, thNakhonRatchasima, thNakhonSawan, thChonburi,
      thKhlang @ thMahachai, thKhlang @ thSuvarnabhumi, thHadyai, thPhuket, thChiangMai,
      thSurat, thKhonKaen]"

definition displayCdcTotals :: "nat \<Rightarrow> table \<Rightarrow> (jsstr \<times> jsnum) list" where
  "displayCdcTotals columnIndex t =
     accumulateCdc displaySearchColumn columnIndex (map (\<lambda>n. (n, Fin 0)) cdcOrder) t"

text \<open>\<open>cdcTotals[cdc]\<close>\<close>

definition totalOf :: "(jsstr \<times> jsnum) list \<Rightarrow> jsstr \<Rightarrow> jsnum option" where
  "totalOf totals k = map_of totals k"

text \<open>\<open>null\<close> for empty table data, else the pairs \<open>{cdc, value}\<close> in display order.\<close>

definition transformTableData :: "table list \<Rightarrow> nat \<Rightarrow> (jsstr \<times> jsnum option) list option" where
  "transformTableData tableData columnIndex =
     (case tableData of
        [] \<Rightarrow> None
      | t # others \<Rightarrow>
          Some (map (\<lambda>cdc. (cdc, totalOf (displayCdcTotals columnIndex t) cdc)) cdcOrder))"

section \<open>The bulk import: the Excel migration script\<close>

subsection \<open>Sheet cells\<close>

text \<open>
  A cell of \<open>XLSX.utils.sheet_to_json(sheet, {header: 1, defval: ''})\<close> is a string, a
  number or a boolean; \<open>undefined\<close> is what reading a row beyond its length gives, and
  \<open>null\<close> is included because \<open>parseNumericValue\<close> tests for it.
\<close>

datatype xcell = XUndefined | XNull | XBool bool | XNum jsnum | XStr jsstr

type_synonym xrow = "xcell list"

definition xcellAt :: "xrow \<Rightarrow> nat \<Rightarrow> xcell" where
  "xcellAt r i = (if i < length r then r ! i else XUndefined)"

fun truthyX :: "xcell \<Rightarrow> bool" where
  "truthyX XUndefined = False"
| "truthyX XNull = False"
| "truthyX (XBool b) = b"
| "truthyX (XNum n) = (n \<noteq> NaN \<and> n \<noteq> Fin 0)"
| "truthyX (XStr s) = (s \<noteq> [])"

text \<open>The decimal digits of a natural number.\<close>

function natDigits :: "nat \<Rightarrow> jsstr" where
  "natDigits n = (if n < 10 then [48 + n] else natDigits (n div 10) @ [48 + n mod 10])"
  by pat_completeness auto
termination
  by (relation "measure id") auto

declare natDigits.simps [simp del]

fun fracDigits :: "nat \<Rightarrow> rat \<Rightarrow> jsstr" where
  "fracDigits 0 f = []"
| "fracDigits (Suc k) f =
     (if f = 0 then []
      else (48 + nat \<lfloor>f * 10\<rfloor>) # fracDigits k (f * 10 - of_int \<lfloor>f * 10\<rfloor>))"

text \<open>
  \<open>String(n)\<close> for a number: exact for \<open>NaN\<close>, the infinities and the integers below
  \<open>10^21\<close>; for a fraction it gives the decimal expansion (cut after 20 places), which is
  what JavaScript prints for the decimals of up to 15 significant digits that a sheet
  holds.  JavaScript's exponent notation for very large and very small numbers is not
  modelled.  The properties below use only that the string of a number never matches
  a date pattern, which holds for the exponent notation as well.
\<close>

fun numberToString :: "jsnum \<Rightarrow> jsstr" where
  "numberToString NaN = asc ''NaN''"
| "numberToString PosInf = asc ''Infinity''"
| "numberToString NegInf = asc ''-Infinity''"
| "numberToString (Fin q) =
     (if q < 0 then [45] else []) @ natDigits (nat \<lfloor>\<bar>q\<bar>\<rfloor>) @
     (if \<bar>q\<bar> = of_int \<lfloor>\<bar>q\<bar>\<rfloor> then []
      else 46 # fracDigits 20 (\<bar>q\<bar> - of_int \<lfloor>\<bar>q\<bar>\<rfloor>))"

text \<open>\<open>String(value)\<close>\<close>

fun toStringX :: "xcell \<Rightarrow> jsstr" where
  "toStringX XUndefined = asc ''undefined''"
| "toStringX XNull = asc ''null''"
| "toStringX (XBool b) = (if b then asc ''true'' else asc ''false'')"
| "toStringX (XNum n) = numberToString n"
| "toStringX (XStr s) = s"

subsection \<open>\<open>findCdcName\<close>\<close>

text \<open>\<open>CDC_VARIATIONS\<close>, in the order of the source: short name and its variants.\<close>

definition CDC_VARIATIONS :: "(jsstr \<times> jsstr list) list" where
  "CDC_VARIATIONS =
     [(thBangBuaThong, [thBangBuaThong, thKhlang @ thBangBuaThong, asc ''BBT'']),
      (thNakhonRatchasima, [thNakhonRatchasima, [3650, 3588, 3619, 3634, 3594], asc ''NMA'']),
      (thNakhonSawan, [thNakhonSawan, asc ''NSW'']),
      (thChonburi, [thChonburi, asc ''CBR'']),
      (thMahachai, [thMahachai, thKhlang @ thMahachai, asc ''MHC'']),
      (thSuvarnabhumi, [thSuvarnabhumi, thKhlang @ thSuvarnabhumi, asc ''SVB'']),
      (thHadyai, [thHadyai, asc ''HDY'']),
      (thPhuket, [thPhuket, asc ''PKT'']),
      (thChiangMai, [thChiangMai, asc ''CNX'']),
      (thSurat, [thSurat, thSurat @ [3608, 3634, 3609, 3637], asc ''SRT'']),
      (thKhonKaen, [thKhonKaen, asc ''KKN''])]"

text \<open>\<open>CDC_NAME_TO_FULL\<close> is the same table as \<open>cdcNameMapping\<close> of the server.\<close>

definition CDC_NAME_TO_FULL :: "jsstr \<Rightarrow> jsstr" where
  "CDC_NAME_TO_FULL = cdcNameMapping"

text \<open>\<open>findCdcName(cellValue)\<close> for a string: the first entry, in table order, one of
  whose variants occurs in the trimmed text.\<close>

definition findCdcName :: "jsstr \<Rightarrow> jsstr option" where
  "findCdcName cellValue =
     (if cellValue = [] then None
      else
        (case filter (\<lambda>(cdcKey, variations).
                 list_ex (\<lambda>variation. includesStr (trim cellValue) variation) variations)
               CDC_VARIATIONS of
           [] \<Rightarrow> None
         | (cdcKey, variations) # rest \<Rightarrow> Some (CDC_NAME_TO_FULL cdcKey)))"

subsection \<open>\<open>parseExcelDate\<close>\<close>

text \<open>
  Modelled from the spec: \<open>XLSX.SSF.parse_date_code\<close> is library code outside the
  repository.  The specification says that a numeric day count is "converted via
  standard epoch arithmetic"; this is the spreadsheet 1900 date system: serial 1 is
  1 January 1900, serial 60 the fictitious 29 February 1900, serial 61 is 1 March 1900,
  and serials below 0 or above 2958465 (31 December 9999) are rejected.  The result
  is (year, month, day) of the whole days of the serial.
\<close>

text \<open>The Gregorian date \<open>z\<close> days after 1 January 1970 (for \<open>z > -719468\<close>), by the
  usual era arithmetic: 400-year eras that begin on 1 March, the year of the era, the
  day of that year, and the month counted from March.\<close>

definition fromMonth :: "int \<Rightarrow> int \<Rightarrow> int \<Rightarrow> nat \<times> nat \<times> nat" where
  "fromMonth y doy mp =
     (nat (if mp < 10 then y else y + 1),
      nat (if mp < 10 then mp + 3 else mp - 9),
      nat (doy - (153 * mp + 2) div 5 + 1))"

definition fromDayOfYear :: "int \<Rightarrow> int \<Rightarrow> nat \<times> nat \<times> nat" where
  "fromDayOfYear y doy = fromMonth y doy ((5 * doy + 2) div 153)"

definition fromYear :: "int \<Rightarrow> int \<Rightarrow> int \<Rightarrow> nat \<times> nat \<times> nat" where
  "fromYear era doe yoe =
     fromDayOfYear (yoe + era * 400) (doe - (365 * yoe + yoe div 4 - yoe div 100))"

definition fromEra :: "int \<Rightarrow> int \<Rightarrow> nat \<times> nat \<times> nat" where
  "fromEra era doe =
     fromYear era doe ((doe - doe div 1460 + doe div 36524 - doe div 146096) div 365)"

definition civilFromDays :: "int \<Rightarrow> nat \<times> nat \<times> nat" where
  "civilFromDays z = fromEra ((z + 719468) div 146097) ((z + 719468) mod 146097)"

fun parse_date_code :: "jsnum \<Rightarrow> (nat \<times> nat \<times> nat) option" where
  "parse_date_code (Fin v) =
     (if v > 2958465 \<or> v < 0 then None
      else
        (let n = \<lfloor>v\<rfloor>
         in if n = 60 then Some (1900, 2, 29)
            else if n = 0 then Some (1900, 1, 0)
            else if n > 60 then Some (civilFromDays (n - 25569))
            else Some (civilFromDays (n - 25568))))"
| "parse_date_code x = None"

text \<open>\<open>s.padStart(2, '0')\<close>\<close>

definition padStart2 :: "jsstr \<Rightarrow> jsstr" where
  "padStart2 s = replicate (2 - length s) 48 @ s"

text \<open>\<open>/^(\\d{1,2})\\/(\\d{1,2})\\/(\\d{4})$/\<close>, with the day and month padded.\<close>

definition fourDigitsEnd :: "jsstr \<Rightarrow> jsstr list" where
  "fourDigitsEnd s = (if length s = 4 \<and> list_all isDigit s then [s] else [])"

definition matchDMY :: "jsstr \<Rightarrow> jsstr option" where
  "matchDMY s =
     (case dateParts fourDigitsEnd s of
        [] \<Rightarrow> None
      | (d, m, y) # rest \<Rightarrow> Some (padStart2 d @ [47] @ padStart2 m @ [47] @ y))"

text \<open>\<open>/^(\\d{4})-(\\d{2})-(\\d{2})$/\<close>: four digits, a hyphen, two digits, a hyphen and
  two digits, and nothing else; the match is reordered to day/month/year.\<close>

definition isIsoDate :: "jsstr \<Rightarrow> bool" where
  "isIsoDate s =
     (length s = 10 \<and> list_all isDigit (take 4 s) \<and> s ! 4 = 45
      \<and> list_all isDigit (take 2 (drop 5 s)) \<and> s ! 7 = 45
      \<and> list_all isDigit (take 2 (drop 8 s)))"

definition matchYMD :: "jsstr \<Rightarrow> jsstr option" where
  "matchYMD s =
     (if isIsoDate s
      then Some (take 2 (drop 8 s) @ [47] @ take 2 (drop 5 s) @ [47] @ take 4 s)
      else None)"

text \<open>\<open>parseExcelDate(value)\<close>; \<open>None\<close> is \<open>null\<close>.  A number that the serial
  conversion rejects falls through to the string patterns, like every other value.\<close>

definition parseExcelDate :: "xcell \<Rightarrow> jsstr option" where
  "parseExcelDate v =
     (if \<not> truthyX v then None
      else
        (case (case v of
                 XNum n \<Rightarrow>
                   (case parse_date_code n of
                      Some (y, m, d) \<Rightarrow>
                        Some (padStart2 (natDigits d) @ [47] @ padStart2 (natDigits m) @ [47]
                              @ natDigits y)
                    | None \<Rightarrow> None)
               | _ \<Rightarrow> None) of
           Some s \<Rightarrow> Some s
         | None \<Rightarrow>
             (let strValue = trim (toStringX v)
              in case matchDMY strValue of
                   Some s \<Rightarrow> Some s
                 | None \<Rightarrow> matchYMD strValue)))"

subsection \<open>\<open>parseNumericValue\<close>\<close>

definition parseNumericValue :: "xcell \<Rightarrow> jsnum" where
  "parseNumericValue v =
     (case v of
        XNull \<Rightarrow> Fin 0
      | XUndefined \<Rightarrow> Fin 0
      | XNum n \<Rightarrow> mathRound n
      | _ \<Rightarrow>
          if v = XStr [] then Fin 0
          else
            (let num = parseFloat (stripCommas (toStringX v))
             in if isNaN num then Fin 0 else mathRound num))"

subsection \<open>The header scan of \<open>parseAndMigrateSheet\<close>\<close>

text \<open>The three tests on the trimmed string of a cell.\<close>

definition isDateLabel :: "jsstr \<Rightarrow> bool" where
  "isDateLabel cellValue =
     (includesStr cellValue thWanThi \<or> includesStr (toLowerCase cellValue) (asc ''date''))"

definition isTotalLabel :: "jsstr \<Rightarrow> bool" where
  "isTotalLabel cellValue =
     ((includesStr cellValue thRuam \<or> includesStr (toLowerCase cellValue) (asc ''total'')
        \<or> includesStr cellValue thYotRuam)
      \<and> \<not> includesStr cellValue (asc ''CDC''))"

text \<open>
  The state of the scan of one row: \<open>cdcCount\<close>, \<open>tempCdcColumns\<close> (column index and
  full name, in column order), \<open>dateColumnIndex\<close> and \<open>totalColumnIndex\<close> (\<open>-1\<close> until a
  label is met).  The first two start afresh in every row; the two indices are
  variables of the whole function and keep their value from one row to the next.
\<close>

type_synonym scanState = "nat \<times> (nat \<times> jsstr) list \<times> int \<times> int"

definition scanCell :: "nat \<Rightarrow> xcell \<Rightarrow> scanState \<Rightarrow> scanState" where
  "scanCell colIdx c st =
     (case st of (cdcCount, tempCdcColumns, dateColumnIndex, totalColumnIndex) \<Rightarrow>
        (let cellValue = trim (toStringX c);
             dateColumnIndex' = (if isDateLabel cellValue then int colIdx else dateColumnIndex);
             totalColumnIndex' = (if isTotalLabel cellValue then int colIdx else totalColumnIndex)
         in case findCdcName cellValue of
              Some cdcName \<Rightarrow>
                (cdcCount + 1, tempCdcColumns @ [(colIdx, cdcName)], dateColumnIndex',
                 totalColumnIndex')
            | None \<Rightarrow> (cdcCount, tempCdcColumns, dateColumnIndex', totalColumnIndex')))"

fun scanCells :: "nat \<Rightarrow> xrow \<Rightarrow> scanState \<Rightarrow> scanState" where
  "scanCells colIdx [] st = st"
| "scanCells colIdx (c # cs) st = scanCells (colIdx + 1) cs (scanCell colIdx c st)"

record layout =
  headerRowIndex :: nat
  cdcColumns :: "(nat \<times> jsstr) list"
  dateColumnIndex :: int
  totalColumnIndex :: int

text \<open>The outer loop over the rows it is given, from row \<open>rowIdx\<close> on; it stops at the
  first row with \<open>cdcCount >= 5\<close>.\<close>

fun scanRows :: "nat \<Rightarrow> xrow list \<Rightarrow> int \<Rightarrow> int \<Rightarrow> layout option" where
  "scanRows rowIdx [] dateIdx totalIdx = None"
| "scanRows rowIdx (r # rs) dateIdx totalIdx =
     (case scanCells 0 r (0, [], dateIdx, totalIdx) of
        (cdcCount, tempCdcColumns, dateIdx', totalIdx') \<Rightarrow>
          if 5 \<le> cdcCount
          then Some \<lparr> headerRowIndex = rowIdx, cdcColumns = tempCdcColumns,
                      dateColumnIndex = dateIdx', totalColumnIndex = totalIdx' \<rparr>
          else scanRows (rowIdx + 1) rs dateIdx' totalIdx')"

text \<open>The scan of the first \<open>Math.min(50, data.length)\<close> rows; \<open>None\<close> is
  \<open>headerRowIndex === -1\<close>.\<close>

definition scanHeader :: "xrow list \<Rightarrow> layout option" where
  "scanHeader sheetData = scanRows 0 (take 50 sheetData) (- 1) (- 1)"

subsection \<open>The data rows of \<open>parseAndMigrateSheet\<close>\<close>

datatype sheetCategory = SOrange | SYuzu | SPop | SMixed | STomato

text \<open>\<open>cdcTotals[cdcName] = value\<close>\<close>

definition setTotal :: "(jsstr \<times> jsnum) list \<Rightarrow> jsstr \<Rightarrow> jsnum \<Rightarrow> (jsstr \<times> jsnum) list" where
  "setTotal totals k v =
     (if k \<in> fst ` set totals
      then map (\<lambda>(k', x). if k' = k then (k', v) else (k', x)) totals
      else totals @ [(k, v)])"

text \<open>The date of a data row: the first of the columns \<open>0 .. max(dateColumnIndex, 2)\<close>
  that parses (the later retry of \<open>dateColumnIndex\<close> reads a column already tried).\<close>

definition rowDate :: "layout \<Rightarrow> xrow \<Rightarrow> jsstr option" where
  "rowDate L r =
     firstSome (\<lambda>colIdx. parseExcelDate (xcellAt r colIdx))
       [0 ..< nat (max (dateColumnIndex L) 2) + 1]"

definition rowCdcTotals :: "layout \<Rightarrow> xrow \<Rightarrow> (jsstr \<times> jsnum) list" where
  "rowCdcTotals L r =
     foldl (\<lambda>totals (colIdx, cdcName). setTotal totals cdcName (parseNumericValue (xcellAt r colIdx)))
       (map (\<lambda>n. (n, Fin 0)) cdcFullNames) (cdcColumns L)"

definition rowTotalSum :: "layout \<Rightarrow> xrow \<Rightarrow> (jsstr \<times> jsnum) list \<Rightarrow> jsnum" where
  "rowTotalSum L r totals =
     (if 0 \<le> totalColumnIndex L \<and> truthyX (xcellAt r (nat (totalColumnIndex L)))
      then parseNumericValue (xcellAt r (nat (totalColumnIndex L)))
      else foldl jsadd (Fin 0) (map snd totals))"

definition sheetRecord ::
  "jsstr \<Rightarrow> jsstr \<Rightarrow> jsnum \<Rightarrow> (jsstr \<times> jsnum) list \<Rightarrow> sheetCategory \<Rightarrow> dailyRecord" where
  "sheetRecord dateStr now grandTotal totals cat =
     \<lparr> date = dateStr,
       timestamp = now,
       fc33HadyaiSum = (case map_of totals thHadyai of
                          Some v \<Rightarrow> (if v = Fin 0 \<or> v = NaN then Fin 0 else v)
                        | None \<Rightarrow> Fin 0),
       totalSum = grandTotal,
       cdcTotals = totals,
       khonKaenLaos = (if cat = SOrange then Some (Fin 0) else None),
       khonKaenCambodia = (if cat = SOrange then Some (Fin 0) else None) \<rparr>"

text \<open>
  The database collaborator (\<open>db.js\<close> over MySQL) is a parameter: \<open>dbIsDateRecorded\<close>
  and \<open>dbSave\<close> read and change a store of type \<open>'db\<close>, and \<open>None\<close> stands for a thrown
  error, which the loop catches and counts as skipped.  The field \<open>produced\<close> is the
  local array \<open>records\<close>, which the function returns in a dry run only.
\<close>

record 'db migration =
  processed :: nat
  skipped :: nat
  produced :: "dailyRecord list"
  store :: 'db

definition migrateRow ::
  "('db \<Rightarrow> jsstr \<Rightarrow> sheetCategory \<Rightarrow> bool option) \<Rightarrow>
   ('db \<Rightarrow> dailyRecord \<Rightarrow> sheetCategory \<Rightarrow> 'db option) \<Rightarrow>
   (jsstr \<Rightarrow> jsstr) \<Rightarrow> layout \<Rightarrow> sheetCategory \<Rightarrow> bool \<Rightarrow>
   'db migration \<Rightarrow> xrow \<Rightarrow> 'db migration" where
  "migrateRow dbIsDateRecorded dbSave now L cat dryRun st r =
     (if r = [] then st
      else
        (case rowDate L r of
           None \<Rightarrow> st
         | Some dateStr \<Rightarrow>
             (let totals = rowCdcTotals L r;
                  grandTotal = rowTotalSum L r totals
              in if grandTotal = Fin 0 \<and> list_all (\<lambda>v. v = Fin 0) (map snd totals)
                 then st\<lparr>skipped := skipped st + 1\<rparr>
                 else
                   (let newRecord = sheetRecord dateStr (now dateStr) grandTotal totals cat;
                        st' = st\<lparr>produced := produced st @ [newRecord]\<rparr>
                    in if dryRun then st'\<lparr>processed := processed st' + 1\<rparr>
                       else
                         (case dbIsDateRecorded (store st') dateStr cat of
                            None \<Rightarrow> st'\<lparr>skipped := skipped st' + 1\<rparr>
                          | Some True \<Rightarrow> st'\<lparr>skipped := skipped st' + 1\<rparr>
                          | Some False \<Rightarrow>
                              (case dbSave (store st') newRecord cat of
                                 None \<Rightarrow> st'\<lparr>skipped := skipped st' + 1\<rparr>
                               | Some db' \<Rightarrow>
                                   st'\<lparr>processed := processed st' + 1, store := db'\<rparr>))))))"

text \<open>
  \<open>parseAndMigrateSheet\<close> on the rows of a sheet: without a header row it returns
  \<open>{processed: 0, skipped: 0}\<close> at once; otherwise it walks the rows below the header.
\<close>

definition parseAndMigrateSheet ::
  "('db \<Rightarrow> jsstr \<Rightarrow> sheetCategory \<Rightarrow> bool option) \<Rightarrow>
   ('db \<Rightarrow> dailyRecord \<Rightarrow> sheetCategory \<Rightarrow> 'db option) \<Rightarrow>
   (jsstr \<Rightarrow> jsstr) \<Rightarrow> 'db \<Rightarrow> xrow list \<Rightarrow> sheetCategory \<Rightarrow> bool \<Rightarrow> 'db migration" where
  "parseAndMigrateSheet dbIsDateRecorded dbSave now db sheetData cat dryRun =
     (case scanHeader sheetData of
        None \<Rightarrow> \<lparr> processed = 0, skipped = 0, produced = [], store = db \<rparr>
      | Some L \<Rightarrow>
          foldl (migrateRow dbIsDateRecorded dbSave now L cat dryRun)
            \<lparr> processed = 0, skipped = 0, produced = [], store = db \<rparr>
            (drop (headerRowIndex L + 1) sheetData))"

section \<open>Auxiliary notions for the proofs\<close>

text \<open>What one fill-down pass does to a single row, given the carry in force there.\<close>

definition filled :: "nat \<Rightarrow> jsstr option \<Rightarrow> row \<Rightarrow> row" where
  "filled c carry r =
     (if truthy (cellAt r c) then r
      else case carry of Some v \<Rightarrow> setCell r c (Str v) | None \<Rightarrow> r)"

definition orElse :: "'a option \<Rightarrow> 'a option \<Rightarrow> 'a option" where
  "orElse a b = (case a of Some v \<Rightarrow> Some v | None \<Rightarrow> b)"

text \<open>
  The signal sums as the claims word them: the column-2 values of the rows (of at least
  three cells) whose column 0 names the location, added from the top down.
\<close>

definition hadyaiRow :: "row \<Rightarrow> bool" where
  "hadyaiRow r = (3 \<le> length r \<and> includesStr (trimmedCell r 0) (asc ''FC33'')
                    \<and> includesStr (trimmedCell r 0) thHadyai)"

definition phuketRow :: "row \<Rightarrow> bool" where
  "phuketRow r = (3 \<le> length r \<and> includesStr (trimmedCell r 0) (asc ''FC07''))"

definition signalSum :: "(row \<Rightarrow> bool) \<Rightarrow> table \<Rightarrow> jsnum" where
  "signalSum names t = foldl jsadd (Fin 0) (map c2Value (filter names t))"

text \<open>The plausibility gate of \<open>recordDailyData\<close> fails when both sums are \<open>0\<close>.\<close>

definition gateFails :: "table \<Rightarrow> bool" where
  "gateFails t = (isZero (fst (validationSums t)) \<and> isZero (snd (validationSums t)))"

fun isSuccess :: "recordResult \<Rightarrow> bool" where
  "isSuccess (Success d rs) = True"
| "isSuccess (Failure e) = False"

text \<open>How many stored records of a category carry a date.\<close>

definition countDate :: "dailyRecords \<Rightarrow> jsstr \<Rightarrow> category \<Rightarrow> nat" where
  "countDate rs d c = length (filter (\<lambda>r. date r = d) (recordsOf rs c))"

text \<open>Sample inputs for the concrete instances below.\<close>

definition emptyRecords :: dailyRecords where
  "emptyRecords = \<lparr> orange = [], yuzu = [] \<rparr>"

definition noClock :: "category \<Rightarrow> jsstr" where
  "noClock c = []"

text \<open>A dated table with one signal row: 10 in column 2, 2 in column 3.\<close>

definition signalTable :: table where
  "signalTable =
     [[Str (thWanThi @ asc '' 18/10/2025''), Str [], Str [], Str []],
      [Str (asc ''FC33 '' @ thHadyai), Str [], Str (asc ''10''), Str (asc ''2'')]]"

text \<open>A table with a total row of 100 and no signal row, and no date.\<close>

definition totalOnlyTable :: table where
  "totalOnlyTable = [[Str thRuam, Str [], Str (asc ''100''), Str (asc ''100'')]]"

text \<open>A dated table whose only signal quantity is negative.\<close>

definition negativeTable :: table where
  "negativeTable =
     [[Str (asc ''1/2/2025''), Str [], Str [], Str []],
      [Str (asc ''FC33 '' @ thHadyai), Str [], Str (asc ''-5''), Str []]]"

text \<open>A table with a positive signal quantity and no date.\<close>

definition undatedTable :: table where
  "undatedTable = [[Str (asc ''FC07''), Str [], Str (asc ''7''), Str []]]"

text \<open>
  The fallback grand total in closed form: the strictly positive parsed values of the
  value column, over every row with a truthy cell there, added from the top down.
\<close>

definition columnValue :: "nat \<Rightarrow> row \<Rightarrow> jsnum" where
  "columnValue columnIndex r =
     orZero (parseFloat (trim (stripCommas (cellText (cellAt r columnIndex)))))"

definition positiveColumnSum :: "nat \<Rightarrow> table \<Rightarrow> jsnum" where
  "positiveColumnSum columnIndex t =
     foldl jsadd (Fin 0)
       (filter gtZero (map (columnValue columnIndex)
          (filter (\<lambda>r. truthy (cellAt r columnIndex)) t)))"

text \<open>The sum of the per-location totals of a record, which the specification names as
  the fallback grand total.\<close>

definition locationSum :: "(jsstr \<times> jsnum) list \<Rightarrow> jsnum" where
  "locationSum totals = foldl jsadd (Fin 0) (map snd totals)"

text \<open>
  The total of one location in closed form: the rows of at least two cells whose label
  column contains the short name and whose value is strictly positive, added from the
  top down.
\<close>

definition attributed :: "nat \<Rightarrow> jsstr \<Rightarrow> nat \<Rightarrow> row \<Rightarrow> bool" where
  "attributed labelColumn cdcName columnIndex r =
     (2 \<le> length r \<and> includesStr (trimmedCell r labelColumn) cdcName
      \<and> truthy (cellAt r columnIndex) \<and> gtZero (cellNumber r columnIndex))"

definition locationTotal :: "nat \<Rightarrow> jsstr \<Rightarrow> nat \<Rightarrow> table \<Rightarrow> jsnum" where
  "locationTotal labelColumn cdcName columnIndex t =
     foldl jsadd (Fin 0)
       (map (\<lambda>r. cellNumber r columnIndex) (filter (attributed labelColumn cdcName columnIndex) t))"

text \<open>A canonical location is depot-style when its full name carries the prefix.\<close>

definition depotStyle :: "jsstr \<Rightarrow> bool" where
  "depotStyle cdcName = startsWith (cdcNameMapping cdcName) thKhlang"

text \<open>The sample table with one more row that names no location: 5 in column 2.\<close>

definition mixedTable :: table where
  "mixedTable = signalTable @ [[Str (asc ''misc''), Str [], Str (asc ''5''), Str (asc ''1'')]]"

text \<open>One row that names Bang Bua Thong in column 0 only.\<close>

definition bangBuaThongTable :: table where
  "bangBuaThongTable = [[Str (asc ''FC01 '' @ thBangBuaThong), Str [], Str (asc ''10'')]]"

text \<open>One row that names the depot of Mahachai in column 1.\<close>

definition mahachaiTable :: table where
  "mahachaiTable = [[Str (asc ''FC05''), Str (thKhlang @ thMahachai), Str (asc ''5'')]]"

text \<open>The test of the inner loop for one short name on one row.\<close>

definition hit :: "(jsstr \<Rightarrow> nat) \<Rightarrow> nat \<Rightarrow> row \<Rightarrow> jsstr \<Rightarrow> bool" where
  "hit sc col r n = (includesStr (trimmedCell r (sc (cdcNameMapping n))) n
                      \<and> truthy (cellAt r col) \<and> gtZero (cellNumber r col))"

text \<open>
  The header scan in closed form.  A cell resolves when \<open>findCdcName\<close> finds a location
  in its trimmed string; \<open>cdcCountOf\<close> counts the resolving cells of a row (cells, not
  distinct locations); \<open>resolvedColumns\<close> pairs their column indices with the locations;
  \<open>lastLabel\<close> is the column index of the last cell, in row-major order over the given
  rows, that passes a label test, or the default when there is none.
\<close>

definition resolves :: "xcell \<Rightarrow> bool" where
  "resolves c = (findCdcName (trim (toStringX c)) \<noteq> None)"

definition cdcCountOf :: "xrow \<Rightarrow> nat" where
  "cdcCountOf r = length (filter resolves r)"

definition resolvedFrom :: "nat \<Rightarrow> xrow \<Rightarrow> (nat \<times> jsstr) list" where
  "resolvedFrom k r =
     map (\<lambda>(i, c). (i, the (findCdcName (trim (toStringX c)))))
       (filter (\<lambda>(i, c). resolves c) (enumerate k r))"

definition resolvedColumns :: "xrow \<Rightarrow> (nat \<times> jsstr) list" where
  "resolvedColumns r = resolvedFrom 0 r"

definition labelCells :: "(jsstr \<Rightarrow> bool) \<Rightarrow> nat \<Rightarrow> xrow \<Rightarrow> (nat \<times> xcell) list" where
  "labelCells isLabel k r = filter (\<lambda>(i, c). isLabel (trim (toStringX c))) (enumerate k r)"

definition lastOr :: "int \<Rightarrow> (nat \<times> xcell) list \<Rightarrow> int" where
  "lastOr dflt xs = (if xs = [] then dflt else int (fst (last xs)))"

definition lastLabel :: "(jsstr \<Rightarrow> bool) \<Rightarrow> xrow list \<Rightarrow> int \<Rightarrow> int" where
  "lastLabel isLabel rows dflt = lastOr dflt (concat (map (labelCells isLabel 0) rows))"

text \<open>The number of distinct canonical locations among the resolving cells of a row.\<close>

definition distinctLocations :: "xrow \<Rightarrow> nat" where
  "distinctLocations r = length (remdups (map snd (resolvedColumns r)))"

text \<open>Sample rows: the same location five times; five different locations; four
  different locations; a title row with a date label.\<close>

definition sameFiveRow :: xrow where
  "sameFiveRow = replicate 5 (XStr thBangBuaThong)"

definition fiveNamesRow :: xrow where
  "fiveNamesRow =
     [XStr thBangBuaThong, XStr (asc ''NMA''), XStr thChonburi, XStr thHadyai, XStr thPhuket]"

definition fourNamesRow :: xrow where
  "fourNamesRow = [XStr thBangBuaThong, XStr (asc ''NMA''), XStr thChonburi, XStr thHadyai]"

definition titleRow :: xrow where
  "titleRow = [XStr (asc ''Date'')]"

text \<open>A database stub for the concrete instances: the list of the dates saved.\<close>

definition stubIsDateRecorded :: "jsstr list \<Rightarrow> jsstr \<Rightarrow> sheetCategory \<Rightarrow> bool option" where
  "stubIsDateRecorded db d c = Some (d \<in> set db)"

definition noStamp :: "jsstr \<Rightarrow> jsstr" where
  "noStamp d = []"

definition stubSave :: "jsstr list \<Rightarrow> dailyRecord \<Rightarrow> sheetCategory \<Rightarrow> jsstr list option" where
  "stubSave db r c = Some (date r # db)"



fun isInteger :: "jsnum \<Rightarrow> bool" where
  "isInteger (Fin q) = (q \<in> \<int>)"
| "isInteger x = False"

fun isFinite :: "jsnum \<Rightarrow> bool" where
  "isFinite (Fin q) = True"
| "isFinite x = False"

text \<open>A signal row whose quantity has a fraction, and one whose quantity is negative.\<close>

definition fractionTable :: table where
  "fractionTable = [[Str (asc ''FC33 '' @ thHadyai), Str [], Str (asc ''12.6'')]]"

definition minusTable :: table where
  "minusTable = [[Str (asc ''FC33 '' @ thHadyai), Str [], Str (asc ''-5'')]]"

section \<open>Fill-down\<close>

lemma cellAt_setCell: "cellAt (setCell r c v) c' = (if c' = c then v else cellAt r c')"
  by (auto simp: cellAt_def setCell_def nth_append)

lemma nonBlank_truthy: "nonBlank x \<Longrightarrow> truthy x"
  by (cases x) (auto simp: nonBlank_def trim_def)

lemma length_fillDownLoop: "length (fillDownLoop c lv rs) = length rs"
  by (induction rs arbitrary: lv) (auto simp: Let_def split: option.splits)

lemma carryOf_Nil: "carryOf [] = None"
  by (simp add: carryOf_def)

lemma carryOf_Cons:
  "carryOf (x # ys) =
     (case carryOf ys of
        Some v \<Rightarrow> Some v
      | None \<Rightarrow> if nonBlank x then Some (trim (cellText x)) else None)"
  by (auto simp: carryOf_def split: list.splits)

text \<open>The loop, row by row: the carry in force at row \<open>i\<close> is the one of the rows above,
  or the initial one when they have none.\<close>

lemma fillDownLoop_nth:
  "lv \<noteq> Some [] \<Longrightarrow> i < length rs \<Longrightarrow>
   fillDownLoop c lv rs ! i = filled c (orElse (carryOf (take i (column c rs))) lv) (rs ! i)"
proof (induction rs arbitrary: lv i)
  case Nil
  then show ?case by simp
next
  case (Cons r rs)
  show ?case
  proof (cases i)
    case 0
    then show ?thesis using Cons.prems
      by (auto simp: filled_def orElse_def carryOf_Nil Let_def split: option.splits)
  next
    case (Suc j)
    let ?x = "cellAt r c"
    let ?lv' = "if truthy ?x \<and> trim (cellText ?x) \<noteq> [] then Some (trim (cellText ?x)) else lv"
    have inv: "?lv' \<noteq> Some []" using Cons.prems by auto
    have j: "j < length rs" using Cons.prems Suc by simp
    have step: "fillDownLoop c lv (r # rs) ! i = fillDownLoop c ?lv' rs ! j"
      using Suc by (auto simp: Let_def split: option.splits)
    have nb: "nonBlank ?x \<longleftrightarrow> truthy ?x \<and> trim (cellText ?x) \<noteq> []"
      using nonBlank_truthy[of ?x] by (auto simp: nonBlank_def)
    have carry: "orElse (carryOf (take i (column c (r # rs)))) lv
                 = orElse (carryOf (take j (column c rs))) ?lv'"
      using Suc nb by (auto simp: column_def carryOf_Cons orElse_def split: option.splits)
    show ?thesis
      unfolding step carry using Cons.IH[OF inv j] Suc by simp
  qed
qed

lemma column_fillDownLoop_other:
  "c' \<noteq> c \<Longrightarrow> column c' (fillDownLoop c lv rs) = column c' rs"
  by (induction rs arbitrary: lv)
     (auto simp: column_def cellAt_setCell Let_def split: option.splits)

lemma cellAt_filled:
  "cellAt (filled c carry r) c' =
     (if c' = c \<and> \<not> truthy (cellAt r c)
      then (case carry of Some v \<Rightarrow> Str v | None \<Rightarrow> cellAt r c) else cellAt r c')"
  by (auto simp: filled_def cellAt_setCell split: option.splits)

lemma column_fillDownLoop_same:
  assumes "i < length rs"
  shows "column c (fillDownLoop c None rs) ! i =
     (if truthy (column c rs ! i) then column c rs ! i
      else case carryOf (take i (column c rs)) of Some v \<Rightarrow> Str v | None \<Rightarrow> column c rs ! i)"
proof -
  have "fillDownLoop c None rs ! i = filled c (carryOf (take i (column c rs))) (rs ! i)"
    using fillDownLoop_nth[of None i rs c] assms by (simp add: orElse_def split: option.splits)
  moreover have "column c rs ! i = cellAt (rs ! i) c"
    using assms by (simp add: column_def)
  moreover have "column c (fillDownLoop c None rs) ! i = cellAt (fillDownLoop c None rs ! i) c"
    using assms by (simp add: column_def length_fillDownLoop)
  ultimately show ?thesis
    by (simp add: cellAt_filled split: option.splits)
qed

text \<open>
  C6 (as amended).  For each of the two label columns (0 and 1) and every row \<open>i\<close> of a
  table, \<open>preprocessTableData\<close> keeps the number of rows; a cell that is absent or the
  empty string is replaced by the trimmed text of the nearest cell above it, in the same
  column, whose trimmed text is non-empty, and stays as it is when there is no such
  cell above; a cell whose trimmed text is non-empty is never changed.
\<close>

theorem fillDown_columns:
  assumes c: "c = 0 \<or> c = 1" and i: "i < length t"
  shows "length (preprocessTable t) = length t \<and>
         (\<not> truthy (column c t ! i) \<longrightarrow>
            column c (preprocessTable t) ! i =
              (case carryOf (take i (column c t)) of
                 Some v \<Rightarrow> Str v | None \<Rightarrow> column c t ! i)) \<and>
         (nonBlank (column c t ! i) \<longrightarrow> column c (preprocessTable t) ! i = column c t ! i)"
proof -
  let ?t0 = "fillDownLoop 0 None t"
  have ne: "t \<noteq> []" using i by auto
  have pre: "preprocessTable t = fillDownLoop 1 None ?t0"
    using ne by (simp add: preprocessTable_def)
  have len: "length (preprocessTable t) = length t"
    by (simp add: pre length_fillDownLoop)
  have col: "column c (preprocessTable t) ! i =
     (if truthy (column c t ! i) then column c t ! i
      else case carryOf (take i (column c t)) of Some v \<Rightarrow> Str v | None \<Rightarrow> column c t ! i)"
  proof (cases "c = 0")
    case True
    have "column 0 (preprocessTable t) = column 0 ?t0"
      unfolding pre by (rule column_fillDownLoop_other) simp
    then show ?thesis using True column_fillDownLoop_same[OF i, of 0]
      by (simp split: option.splits)
  next
    case False
    then have c1: "c = 1" using c by simp
    have same: "column 1 ?t0 = column 1 t"
      by (rule column_fillDownLoop_other) simp
    have "i < length ?t0" using i by (simp add: length_fillDownLoop)
    from column_fillDownLoop_same[OF this, of 1] show ?thesis
      unfolding pre c1 same .
  qed
  show ?thesis using len col nonBlank_truthy by auto
qed

text \<open>The claim's first example, at its last row: the column \<open>[A, "", "", B, ""]\<close> ends
  in \<open>B\<close>.\<close>

theorem fillDown_columns_witness:
  "((0::nat) = 0 \<or> (0::nat) = 1) \<and>
   4 < length [[Str (asc ''A'')], [Str []], [Str []], [Str (asc ''B'')], [Str []]] \<and>
   column 0 (preprocessTable
      [[Str (asc ''A'')], [Str []], [Str []], [Str (asc ''B'')], [Str []]]) ! 4 = Str (asc ''B'')"
  using fillDown_columns [of 0 4 "[[Str (asc ''A'')], [Str []], [Str []], [Str (asc ''B'')], [Str []]]"]
  by (simp add: column_def cellAt_def carryOf_def nonBlank_def asc_def trim_def is_ws_def)

text \<open>
  C6 as stated fails: a cell holding one space has empty trimmed text but is not
  replaced, and the value filled in under \<open>" A"\<close> is \<open>"A"\<close>, not the cell above as it
  stands.
\<close>

theorem fillDown_counterexample:
  "column 0 (preprocessTable [[Str (asc ''A'')], [Str (asc '' '')]])
     \<noteq> specFillDown None (column 0 [[Str (asc ''A'')], [Str (asc '' '')]])
   \<and> column 0 (preprocessTable [[Str (asc '' A'')], [Str []]])
     \<noteq> specFillDown None (column 0 [[Str (asc '' A'')], [Str []]])"
  by (simp add: preprocessTable_def column_def cellAt_def setCell_def asc_def trim_def
        is_ws_def Let_def)

text \<open>The two examples of the claim hold on the code.\<close>

lemma fillDown_examples:
  "column 0 (preprocessTable
      [[Str (asc ''A'')], [Str []], [Str []], [Str (asc ''B'')], [Str []]])
     = [Str (asc ''A''), Str (asc ''A''), Str (asc ''A''), Str (asc ''B''), Str (asc ''B'')]"
  "column 0 (preprocessTable [[Str []], [Str []], [Str (asc ''A'')]])
     = [Str [], Str [], Str (asc ''A'')]"
  by (simp_all add: preprocessTable_def column_def cellAt_def setCell_def asc_def trim_def
        is_ws_def Let_def)

section \<open>The record pipeline: results\<close>

lemma validationSums_fold:
  "foldl validationStep (h, p) t =
     (foldl jsadd h (map c2Value (filter hadyaiRow t)),
      foldl jsadd p (map c2Value (filter phuketRow t)))"
  by (induction t arbitrary: h p)
     (auto simp: validationStep_def hadyaiRow_def phuketRow_def Let_def)

lemma validationSums_signal:
  "validationSums t = (signalSum hadyaiRow t, signalSum phuketRow t)"
  by (simp add: validationSums_def signalSum_def validationSums_fold)

lemma gateFails_signal:
  "gateFails t \<longleftrightarrow> signalSum hadyaiRow t = Fin 0 \<and> signalSum phuketRow t = Fin 0"
  by (simp add: gateFails_def validationSums_signal isZero_def)

text \<open>The loop over the two categories, unfolded.\<close>

lemma categoryStep_results:
  "snd (categoryStep d now h t st c) =
     snd st @ (if isDateRecorded (fst st) d c then [] else [(c, buildRecord d (now c) h t c)])"
  by (simp add: categoryStep_def Let_def)

lemma categoryStep_records:
  "fst (categoryStep d now h t st c) =
     (if isDateRecorded (fst st) d c then fst st
      else pushRecord (fst st) c (buildRecord d (now c) h t c))"
  by (simp add: categoryStep_def Let_def)

lemma recordDailyData_cases:
  "recordDailyData records now (t # ts) text =
     (if gateFails t then (Failure ValidationFailed, records)
      else case extractDate t text of
             None \<Rightarrow> (Failure NoDateFound, records)
           | Some d \<Rightarrow>
               (let st = foldl (categoryStep d now (fst (validationSums t)) t) (records, [])
                           [Orange, Yuzu]
                in (Success d (snd st), fst st)))"
  by (simp add: recordDailyData_def gateFails_def Let_def)

lemma results_built:
  assumes "(c, r) \<in> set (snd (foldl (categoryStep d now h t) (records, []) [Orange, Yuzu]))"
  shows "r = buildRecord d (now c) h t c"
  using assms by (auto simp: categoryStep_results split: if_splits)


lemma recordDailyData_Nil:
  "recordDailyData records now [] text = (Failure NoTableData, records)"
  by (simp add: recordDailyData_def)

lemma isDateRecorded_count: "isDateRecorded rs d c \<longleftrightarrow> 0 < countDate rs d c"
  by (simp add: isDateRecorded_def countDate_def list_ex_iff filter_empty_conv)

lemma countDate_push:
  "countDate (pushRecord rs c r) d c' =
     countDate rs d c' + (if c' = c \<and> date r = d then 1 else 0)"
  by (cases c; cases c') (simp_all add: countDate_def)

lemma date_buildRecord: "date (buildRecord d n h t c) = d"
  by (simp add: buildRecord_def)

lemma fc33_buildRecord: "fc33HadyaiSum (buildRecord d n h t c) = h"
  by (simp add: buildRecord_def)

lemma countDate_step:
  "countDate (fst (categoryStep d now h t st c)) d c' =
     (if c' = c then max 1 (countDate (fst st) d c') else countDate (fst st) d c')"
  by (auto simp: categoryStep_records countDate_push date_buildRecord isDateRecorded_count)

lemma countDate_loop:
  "countDate (fst (foldl (categoryStep d now h t) (records, []) [Orange, Yuzu])) d c =
     max 1 (countDate records d c)"
  by (cases c) (simp_all add: countDate_step)

lemma loop_idle:
  assumes "isDateRecorded records d Orange" "isDateRecorded records d Yuzu"
  shows "foldl (categoryStep d now h t) (records, []) [Orange, Yuzu] = (records, [])"
  using assms by (simp add: categoryStep_def)

text \<open>
  C1.  Running \<open>recordDailyData\<close> twice on the same table data and text (the clock may
  differ): the second run leaves the stored records exactly as the first run left them.
  When the first run records under a date, the second run succeeds with the same date
  and an empty list of new records (each category is skipped as already recorded, not
  reported as an error), and each category holds exactly one record of that date, or
  as many as it held before the first run if it already held some.  When the first
  run rejects the table, the second rejects it for the same reason and nothing is
  stored.
\<close>

theorem record_twice:
  "snd (recordDailyData (snd (recordDailyData records now1 tableData text)) now2 tableData text)
     = snd (recordDailyData records now1 tableData text) \<and>
   (case fst (recordDailyData records now1 tableData text) of
      Failure e \<Rightarrow>
        fst (recordDailyData (snd (recordDailyData records now1 tableData text)) now2
               tableData text) = Failure e \<and>
        snd (recordDailyData records now1 tableData text) = records
    | Success d rs \<Rightarrow>
        fst (recordDailyData (snd (recordDailyData records now1 tableData text)) now2
               tableData text) = Success d [] \<and>
        (\<forall>c. countDate (snd (recordDailyData records now1 tableData text)) d c
               = max 1 (countDate records d c)))"
proof (cases tableData)
  case Nil
  then show ?thesis by (simp add: recordDailyData_Nil)
next
  case (Cons t ts)
  show ?thesis
  proof (cases "gateFails t")
    case True
    then show ?thesis using Cons by (simp add: recordDailyData_cases)
  next
    case gate: False
    show ?thesis
    proof (cases "extractDate t text")
      case None
      then show ?thesis using Cons gate by (simp add: recordDailyData_cases)
    next
      case (Some d)
      let ?h = "fst (validationSums t)"
      let ?st = "foldl (categoryStep d now1 ?h t) (records, []) [Orange, Yuzu]"
      have first: "recordDailyData records now1 tableData text = (Success d (snd ?st), fst ?st)"
        using Cons gate Some by (simp add: recordDailyData_cases Let_def)
      have cnt: "countDate (fst ?st) d c = max 1 (countDate records d c)" for c
        by (rule countDate_loop)
      have rec: "isDateRecorded (fst ?st) d c" for c
      proof -
        have "0 < max 1 (countDate records d c)" by simp
        then show ?thesis by (simp only: isDateRecorded_count cnt)
      qed
      have idle: "foldl (categoryStep d now2 ?h t) (fst ?st, []) [Orange, Yuzu] = (fst ?st, [])"
        by (rule loop_idle) (rule rec)+
      have second: "recordDailyData (fst ?st) now2 tableData text = (Success d [], fst ?st)"
        using Cons gate Some idle by (simp add: recordDailyData_cases Let_def)
      show ?thesis
        unfolding first using second cnt by (simp only: fst_conv snd_conv recordResult.case) simp
    qed
  qed
qed


lemmas str_ev = asc_def trim_def is_ws_def Let_def stripCommas_def toLowerCase_def lowerUnit_def
lemmas num_ev = parseFloat_def unsignedFloat_def exponentPart_def scale10_def digitsVal_def
  isDigit_def
lemmas date_ev = extractDate_def findDateInTable_def matchDateAt_def matchDate_def dateParts_def
  digitRuns12_def slashThen_def fourDigits_def thWanThi_def isDigit_def
lemmas cell_ev = cellAt_def trimmedCell_def cellNumber_def c2Value_def

lemma signalTable_sums: "validationSums signalTable = (Fin 10, Fin 0)"
  by (simp add: validationSums_def validationStep_def signalTable_def cell_ev str_ev num_ev
        thHadyai_def thWanThi_def)

lemma signalTable_date: "extractDate signalTable [] = Some (asc ''18/10/2025'')"
  by (simp add: date_ev signalTable_def str_ev)

lemma totalOnlyTable_sums: "validationSums totalOnlyTable = (Fin 0, Fin 0)"
  by (simp add: validationSums_def validationStep_def totalOnlyTable_def cell_ev str_ev num_ev
        thHadyai_def thRuam_def)

lemma totalOnlyTable_date: "extractDate totalOnlyTable [] = None"
  by (simp add: date_ev totalOnlyTable_def str_ev thRuam_def)

lemma negativeTable_sums: "validationSums negativeTable = (Fin (- 5), Fin 0)"
  by (simp add: validationSums_def validationStep_def negativeTable_def cell_ev str_ev num_ev
        thHadyai_def)

lemma negativeTable_date: "extractDate negativeTable [] = Some (asc ''1/2/2025'')"
  by (simp add: date_ev negativeTable_def str_ev)

lemma undatedTable_sums: "validationSums undatedTable = (Fin 0, Fin 7)"
  by (simp add: validationSums_def validationStep_def undatedTable_def cell_ev str_ev num_ev
        thHadyai_def)

lemma undatedTable_date: "extractDate undatedTable [] = None"
  by (simp add: date_ev undatedTable_def str_ev)


lemma recordDailyData_signalTable:
  "recordDailyData emptyRecords noClock [signalTable] [] =
     (Success (asc ''18/10/2025'')
        [(Orange, buildRecord (asc ''18/10/2025'') [] (Fin 10) signalTable Orange),
         (Yuzu, buildRecord (asc ''18/10/2025'') [] (Fin 10) signalTable Yuzu)],
      \<lparr> orange = [buildRecord (asc ''18/10/2025'') [] (Fin 10) signalTable Orange],
        yuzu = [buildRecord (asc ''18/10/2025'') [] (Fin 10) signalTable Yuzu] \<rparr>)"
  by (simp add: recordDailyData_cases gateFails_def signalTable_sums signalTable_date
        isZero_def categoryStep_def isDateRecorded_def emptyRecords_def noClock_def Let_def)

text \<open>On the sample table, run twice from an empty file: the second run records
  nothing new and each category holds one record of the date.\<close>

theorem record_twice_witness:
  "fst (recordDailyData (snd (recordDailyData emptyRecords noClock [signalTable] [])) noClock
          [signalTable] []) = Success (asc ''18/10/2025'') [] \<and>
   snd (recordDailyData (snd (recordDailyData emptyRecords noClock [signalTable] [])) noClock
          [signalTable] []) = snd (recordDailyData emptyRecords noClock [signalTable] []) \<and>
   countDate (snd (recordDailyData emptyRecords noClock [signalTable] []))
     (asc ''18/10/2025'') Orange = 1 \<and>
   countDate (snd (recordDailyData emptyRecords noClock [signalTable] []))
     (asc ''18/10/2025'') Yuzu = 1"
proof -
  have c: "countDate emptyRecords d c = 0" for d c
    by (cases c) (simp_all add: countDate_def emptyRecords_def)
  show ?thesis
    using record_twice [of emptyRecords noClock "[signalTable]" "[]" noClock]
    by (simp add: recordDailyData_signalTable c)
qed

text \<open>
  C10.  Every record that one call of \<open>recordDailyData\<close> creates, for Yuzu as for
  Orange, stores the same \<open>fc33HadyaiSum\<close>: the sum of the parsed column-2 values of
  the rows whose column 0 contains both \<open>FC33\<close> and the Thai name of Hat Yai.  The
  category's own value column plays no part.
\<close>

theorem fc33HadyaiSum_shared:
  assumes "recordDailyData records now tableData text = (Success d results, records')"
  shows "\<forall>(c, r) \<in> set results. fc33HadyaiSum r = signalSum hadyaiRow (hd tableData)"
proof (cases tableData)
  case Nil
  then show ?thesis using assms by (simp add: recordDailyData_Nil)
next
  case (Cons t ts)
  let ?h = "fst (validationSums t)"
  from assms Cons have
    "results = snd (foldl (categoryStep d now ?h t) (records, []) [Orange, Yuzu])"
    by (auto simp: recordDailyData_cases Let_def split: if_splits option.splits)
  then have built: "r = buildRecord d (now c) ?h t c" if "(c, r) \<in> set results" for c r
    using that results_built by blast
  have "fc33HadyaiSum r = signalSum hadyaiRow t" if "(c, r) \<in> set results" for c r
    using built[OF that] by (simp add: fc33_buildRecord validationSums_signal)
  then show ?thesis
    using Cons by auto
qed

text \<open>On the sample table both records store 10, the column-2 sum, although the Yuzu
  column holds 2 in the signal row.\<close>

theorem fc33HadyaiSum_shared_witness:
  "recordDailyData emptyRecords noClock [signalTable] [] =
     (Success (asc ''18/10/2025'')
        [(Orange, buildRecord (asc ''18/10/2025'') [] (Fin 10) signalTable Orange),
         (Yuzu, buildRecord (asc ''18/10/2025'') [] (Fin 10) signalTable Yuzu)],
      \<lparr> orange = [buildRecord (asc ''18/10/2025'') [] (Fin 10) signalTable Orange],
        yuzu = [buildRecord (asc ''18/10/2025'') [] (Fin 10) signalTable Yuzu] \<rparr>) \<and>
   fc33HadyaiSum (buildRecord (asc ''18/10/2025'') [] (Fin 10) signalTable Yuzu)
     = signalSum hadyaiRow signalTable \<and>
   fc33HadyaiSum (buildRecord (asc ''18/10/2025'') [] (Fin 10) signalTable Orange)
     = signalSum hadyaiRow signalTable \<and>
   signalSum hadyaiRow signalTable = Fin 10 \<and>
   cellNumber (signalTable ! 1) (categoryColumn Yuzu) = Fin 2"
proof -
  note shared = fc33HadyaiSum_shared [OF recordDailyData_signalTable]
  have s: "signalSum hadyaiRow signalTable = Fin 10"
    using validationSums_signal [of signalTable] signalTable_sums by simp
  have c: "cellNumber (signalTable ! 1) (categoryColumn Yuzu) = Fin 2"
    by (simp add: signalTable_def cell_ev str_ev num_ev)
  show ?thesis
    using shared s c recordDailyData_signalTable by simp
qed

text \<open>
  C4 (as amended).  The rejection reasons of \<open>recordDailyData\<close> come in this order:
  no table data; then the plausibility gate (both signal sums are 0); then the date.
  The no-date reason is given exactly for the tables that pass the gate and yield no
  date, from the accompanying text or from the grid.
\<close>

theorem rejection_order:
  "(fst (recordDailyData records now tableData text) = Failure NoTableData
      \<longleftrightarrow> tableData = []) \<and>
   (fst (recordDailyData records now tableData text) = Failure ValidationFailed
      \<longleftrightarrow> tableData \<noteq> [] \<and> signalSum hadyaiRow (hd tableData) = Fin 0
                         \<and> signalSum phuketRow (hd tableData) = Fin 0) \<and>
   (fst (recordDailyData records now tableData text) = Failure NoDateFound
      \<longleftrightarrow> tableData \<noteq> []
          \<and> \<not> (signalSum hadyaiRow (hd tableData) = Fin 0
                \<and> signalSum phuketRow (hd tableData) = Fin 0)
          \<and> extractDate (hd tableData) text = None)"
proof (cases tableData)
  case Nil
  then show ?thesis by (simp add: recordDailyData_Nil)
next
  case (Cons t ts)
  then show ?thesis
    by (auto simp: recordDailyData_cases gateFails_signal Let_def split: option.splits)
qed

text \<open>
  C4 as stated fails: a table with no date at all that also fails the gate is rejected
  with the gate's reason, not with the no-date reason.
\<close>

theorem rejection_order_counterexample:
  "extractDate totalOnlyTable [] = None \<and>
   fst (recordDailyData emptyRecords noClock [totalOnlyTable] []) \<noteq> Failure NoDateFound \<and>
   fst (recordDailyData emptyRecords noClock [totalOnlyTable] []) = Failure ValidationFailed"
  by (simp add: totalOnlyTable_date recordDailyData_cases gateFails_def totalOnlyTable_sums
        isZero_def)


lemma length_step:
  "length (recordsOf (fst (categoryStep d now h t st c)) c') =
     length (recordsOf (fst st) c') + (if c' = c \<and> \<not> isDateRecorded (fst st) d c then 1 else 0)"
  by (cases c; cases c') (simp_all add: categoryStep_records)

lemma isDateRecorded_step_other:
  "c' \<noteq> c \<Longrightarrow> isDateRecorded (fst (categoryStep d now h t st c)) d c' = isDateRecorded (fst st) d c'"
  by (cases c; cases c') (simp_all add: categoryStep_records isDateRecorded_def)

lemma loop_changes:
  "fst (foldl (categoryStep d now h t) (records, []) [Orange, Yuzu]) \<noteq> records
     \<longleftrightarrow> (\<exists>c. \<not> isDateRecorded records d c)"
proof
  assume "\<exists>c. \<not> isDateRecorded records d c"
  then obtain c where c: "\<not> isDateRecorded records d c" ..
  let ?st1 = "categoryStep d now h t (records, []) Orange"
  let ?st2 = "categoryStep d now h t ?st1 Yuzu"
  have "length (recordsOf (fst ?st2) c) = length (recordsOf records c) + 1"
  proof (cases c)
    case Orange
    then show ?thesis using c by (simp add: length_step del: recordsOf.simps)
  next
    case Yuzu
    then have "\<not> isDateRecorded (fst ?st1) d Yuzu"
      using c by (simp add: isDateRecorded_step_other)
    then show ?thesis using Yuzu by (simp add: length_step del: recordsOf.simps)
  qed
  then have "fst ?st2 \<noteq> records" by auto
  then show "fst (foldl (categoryStep d now h t) (records, []) [Orange, Yuzu]) \<noteq> records"
    by simp
next
  assume ne: "fst (foldl (categoryStep d now h t) (records, []) [Orange, Yuzu]) \<noteq> records"
  show "\<exists>c. \<not> isDateRecorded records d c"
  proof (rule ccontr)
    assume "\<not> (\<exists>c. \<not> isDateRecorded records d c)"
    then have "isDateRecorded records d Orange" "isDateRecorded records d Yuzu" by auto
    from loop_idle[OF this] ne show False by simp
  qed
qed

lemma recordsOf_step:
  "recordsOf (fst (categoryStep d now h t st c)) c' =
     recordsOf (fst st) c' @
       (if c' = c \<and> \<not> isDateRecorded (fst st) d c then [buildRecord d (now c) h t c] else [])"
  by (cases c; cases c') (simp_all add: categoryStep_records)

lemma loop_records:
  "recordsOf (fst (foldl (categoryStep d now h t) (records, []) [Orange, Yuzu])) c =
     recordsOf records c @
       (if isDateRecorded records d c then [] else [buildRecord d (now c) h t c])"
  by (cases c)
     (simp_all add: recordsOf_step isDateRecorded_step_other del: recordsOf.simps)

text \<open>
  C5 (as amended).  \<open>recordDailyData\<close> succeeds exactly when there is table data, at
  least one of the two signal sums (column 2 over the rows whose column 0 names FC33
  Hat Yai, and over the rows whose column 0 contains \<open>FC07\<close>) is not 0, and a date is
  found; it changes the stored records exactly when, in addition, some category has no
  record of that date yet, and what it appends to a category is then the one record
  built for it.  So a grid whose signal sums are both 0 is rejected whatever its total
  column holds.
\<close>

theorem gate_and_persistence:
  "(isSuccess (fst (recordDailyData records now tableData text)) \<longleftrightarrow>
      tableData \<noteq> []
      \<and> \<not> (signalSum hadyaiRow (hd tableData) = Fin 0
            \<and> signalSum phuketRow (hd tableData) = Fin 0)
      \<and> extractDate (hd tableData) text \<noteq> None) \<and>
   (snd (recordDailyData records now tableData text) \<noteq> records \<longleftrightarrow>
      tableData \<noteq> []
      \<and> \<not> (signalSum hadyaiRow (hd tableData) = Fin 0
            \<and> signalSum phuketRow (hd tableData) = Fin 0)
      \<and> (\<exists>d c. extractDate (hd tableData) text = Some d \<and> \<not> isDateRecorded records d c)) \<and>
   recordsOf (snd (recordDailyData records now tableData text)) c =
     recordsOf records c @
       (case extractDate (hd tableData) text of
          None \<Rightarrow> []
        | Some d \<Rightarrow>
            if tableData \<noteq> []
               \<and> \<not> (signalSum hadyaiRow (hd tableData) = Fin 0
                     \<and> signalSum phuketRow (hd tableData) = Fin 0)
               \<and> \<not> isDateRecorded records d c
            then [buildRecord d (now c) (signalSum hadyaiRow (hd tableData)) (hd tableData) c]
            else [])"
proof (cases tableData)
  case Nil
  then show ?thesis by (simp add: recordDailyData_Nil split: option.splits)
next
  case (Cons t ts)
  show ?thesis
  proof (cases "extractDate t text")
    case None
    then show ?thesis using Cons
      by (simp add: recordDailyData_cases gateFails_signal)
  next
    case (Some d)
    have h: "fst (validationSums t) = signalSum hadyaiRow t"
      by (simp add: validationSums_signal)
    show ?thesis using Some Cons loop_changes[of d now "fst (validationSums t)" t records]
        loop_records[of d now "fst (validationSums t)" t records c]
      by (simp add: recordDailyData_cases gateFails_signal Let_def h del: foldl.simps recordsOf.simps)
  qed
qed

text \<open>
  C5 as stated fails in both directions: a table whose only signal quantity is \<open>-5\<close>
  (no signal quantity is strictly positive) passes the gate and its records are stored;
  a table with signal quantity 7 and no date passes the gate and nothing is stored.
\<close>

theorem gate_counterexample:
  "signalSum hadyaiRow negativeTable = Fin (- 5) \<and> \<not> gtZero (Fin (- 5)) \<and>
   signalSum phuketRow negativeTable = Fin 0 \<and> \<not> gtZero (Fin 0) \<and>
   isSuccess (fst (recordDailyData emptyRecords noClock [negativeTable] [])) \<and>
   snd (recordDailyData emptyRecords noClock [negativeTable] []) \<noteq> emptyRecords \<and>
   signalSum phuketRow undatedTable = Fin 7 \<and> gtZero (Fin 7) \<and>
   snd (recordDailyData emptyRecords noClock [undatedTable] []) = emptyRecords"
proof -
  have n: "signalSum hadyaiRow negativeTable = Fin (- 5)" "signalSum phuketRow negativeTable = Fin 0"
    using validationSums_signal [of negativeTable] negativeTable_sums by simp_all
  have u: "signalSum phuketRow undatedTable = Fin 7"
    using validationSums_signal [of undatedTable] undatedTable_sums by simp
  have r1: "isSuccess (fst (recordDailyData emptyRecords noClock [negativeTable] []))"
    by (simp add: recordDailyData_cases gateFails_def negativeTable_sums negativeTable_date
          isZero_def Let_def)
  have r2: "snd (recordDailyData emptyRecords noClock [negativeTable] []) \<noteq> emptyRecords"
    by (simp add: recordDailyData_cases gateFails_def negativeTable_sums negativeTable_date
          isZero_def Let_def categoryStep_def isDateRecorded_def emptyRecords_def)
  have r3: "snd (recordDailyData emptyRecords noClock [undatedTable] []) = emptyRecords"
    by (simp add: recordDailyData_cases gateFails_def undatedTable_sums undatedTable_date
          isZero_def)
  show ?thesis using n u r1 r2 r3 by simp
qed

section \<open>Aggregation: results\<close>

lemma columnSum_fold:
  "foldl (columnSumStep col) acc t =
     foldl jsadd acc (filter gtZero (map (columnValue col) (filter (\<lambda>r. truthy (cellAt r col)) t)))"
  by (induction t arbitrary: acc) (auto simp: columnSumStep_def columnValue_def Let_def)

lemma computeTotalSum_eq:
  "computeTotalSum col t =
     (if isZero (searchTotalRow col t) then positiveColumnSum col t else searchTotalRow col t)"
  by (simp add: computeTotalSum_def Let_def columnSum_fold positiveColumnSum_def isZero_def)

lemma map_of_bump:
  "map_of (map (\<lambda>(k', x). if k' = k then (k', jsadd x v) else (k', x)) T) k' =
     (if k' = k then map_option (\<lambda>x. jsadd x v) (map_of T k) else map_of T k')"
  by (induction T) auto

lemma map_of_addTo:
  "k \<in> fst ` set T \<Longrightarrow>
   map_of (addTo T k v) k' = (if k' = k then map_option (\<lambda>x. jsadd x v) (map_of T k) else map_of T k')"
  by (simp add: addTo_def map_of_bump)

lemma keys_addTo: "k \<in> fst ` set T \<Longrightarrow> fst ` set (addTo T k v) = fst ` set T"
  by (force simp: addTo_def split: if_splits)

lemma cdcNameStep_hit:
  "cdcNameStep sc col r T n =
     (if hit sc col r n then addTo T (cdcNameMapping n) (cellNumber r col) else T)"
  by (simp add: cdcNameStep_def hit_def Let_def)

lemma inner_loop:
  assumes "distinct (map cdcNameMapping ns)" "cdcNameMapping ` set ns \<subseteq> fst ` set T"
  shows "fst ` set (foldl (cdcNameStep sc col r) T ns) = fst ` set T \<and>
         map_of (foldl (cdcNameStep sc col r) T ns) k =
           (if \<exists>n \<in> set ns. cdcNameMapping n = k \<and> hit sc col r n
            then map_option (\<lambda>x. jsadd x (cellNumber r col)) (map_of T k) else map_of T k)"
  using assms
proof (induction ns arbitrary: T)
  case Nil
  then show ?case by simp
next
  case (Cons n ns)
  let ?T' = "cdcNameStep sc col r T n"
  have key: "cdcNameMapping n \<in> fst ` set T" using Cons.prems by auto
  have keys': "fst ` set ?T' = fst ` set T"
    using key by (simp add: cdcNameStep_hit keys_addTo)
  have m': "map_of ?T' k =
     (if cdcNameMapping n = k \<and> hit sc col r n
      then map_option (\<lambda>x. jsadd x (cellNumber r col)) (map_of T k) else map_of T k)"
    using map_of_addTo[OF key, of "cellNumber r col" k] by (auto simp: cdcNameStep_hit)
  have d: "distinct (map cdcNameMapping ns)" using Cons.prems by simp
  have sub: "cdcNameMapping ` set ns \<subseteq> fst ` set ?T'" using Cons.prems keys' by auto
  have nin: "cdcNameMapping n \<notin> cdcNameMapping ` set ns" using Cons.prems(1) by simp
  have fresh: "cdcNameMapping n' \<noteq> cdcNameMapping n" if "n' \<in> set ns" for n'
  proof
    assume "cdcNameMapping n' = cdcNameMapping n"
    then have "cdcNameMapping n \<in> cdcNameMapping ` set ns" using that by (metis imageI)
    with nin show False ..
  qed
  from Cons.IH[OF d sub] have IH:
    "fst ` set (foldl (cdcNameStep sc col r) ?T' ns) = fst ` set ?T'"
    "map_of (foldl (cdcNameStep sc col r) ?T' ns) k =
       (if \<exists>n \<in> set ns. cdcNameMapping n = k \<and> hit sc col r n
        then map_option (\<lambda>x. jsadd x (cellNumber r col)) (map_of ?T' k) else map_of ?T' k)"
    by simp_all
  show ?case
  proof (intro conjI)
    show "fst ` set (foldl (cdcNameStep sc col r) T (n # ns)) = fst ` set T"
      using IH(1) keys' by simp
    show "map_of (foldl (cdcNameStep sc col r) T (n # ns)) k =
           (if \<exists>n' \<in> set (n # ns). cdcNameMapping n' = k \<and> hit sc col r n'
            then map_option (\<lambda>x. jsadd x (cellNumber r col)) (map_of T k) else map_of T k)"
    proof (cases "\<exists>n' \<in> set ns. cdcNameMapping n' = k \<and> hit sc col r n'")
      case True
      then obtain n' where "n' \<in> set ns" "cdcNameMapping n' = k" by blast
      then have "cdcNameMapping n \<noteq> k" using fresh[of n'] by metis
      then have "map_of ?T' k = map_of T k" using m' by simp
      moreover have "map_of (foldl (cdcNameStep sc col r) ?T' ns) k =
          map_option (\<lambda>x. jsadd x (cellNumber r col)) (map_of ?T' k)"
        by (simp only: IH(2) True if_True)
      ultimately show ?thesis using True by auto
    next
      case False
      have "map_of (foldl (cdcNameStep sc col r) ?T' ns) k = map_of ?T' k"
        by (simp only: IH(2) False if_False)
      then show ?thesis using m' False by auto
    qed
  qed
qed


lemmas name_ev = cdcNames_def cdcNameMapping_def thBangBuaThong_def thNakhonRatchasima_def
  thNakhonSawan_def thChonburi_def thMahachai_def thSuvarnabhumi_def thHadyai_def thPhuket_def
  thChiangMai_def thSurat_def thKhonKaen_def thKhlang_def

lemma distinct_fullNames: "distinct (map cdcNameMapping cdcNames)"
  by (simp add: name_ev)

lemma cdcOrder_fullNames: "cdcOrder = cdcFullNames"
  by (simp add: cdcOrder_def cdcFullNames_def name_ev)

lemma inj_fullNames:
  "n \<in> set cdcNames \<Longrightarrow> n' \<in> set cdcNames \<Longrightarrow> cdcNameMapping n' = cdcNameMapping n \<Longrightarrow> n' = n"
proof -
  assume a: "n \<in> set cdcNames" "n' \<in> set cdcNames" "cdcNameMapping n' = cdcNameMapping n"
  have "inj_on cdcNameMapping (set cdcNames)"
    using distinct_fullNames by (simp add: distinct_map)
  then show "n' = n" using a by (simp add: inj_on_def)
qed

lemma row_step:
  assumes n: "n \<in> set cdcNames" and keys: "cdcNameMapping ` set cdcNames \<subseteq> fst ` set T"
  shows "fst ` set (cdcRowStep sc col T r) = fst ` set T \<and>
         map_of (cdcRowStep sc col T r) (cdcNameMapping n) =
           (if attributed (sc (cdcNameMapping n)) n col r
            then map_option (\<lambda>x. jsadd x (cellNumber r col)) (map_of T (cdcNameMapping n))
            else map_of T (cdcNameMapping n))"
proof (cases "length r < 2")
  case True
  then show ?thesis by (simp add: cdcRowStep_def attributed_def)
next
  case False
  have ex: "(\<exists>n' \<in> set cdcNames. cdcNameMapping n' = cdcNameMapping n \<and> hit sc col r n')
              \<longleftrightarrow> hit sc col r n"
    using n inj_fullNames by blast
  have att: "attributed (sc (cdcNameMapping n)) n col r \<longleftrightarrow> hit sc col r n"
    using False by (simp add: attributed_def hit_def)
  from inner_loop[OF distinct_fullNames keys, of sc col r "cdcNameMapping n"]
  show ?thesis
    using False by (simp only: cdcRowStep_def if_False ex att)
qed

lemma outer_loop:
  assumes n: "n \<in> set cdcNames" and keys: "cdcNameMapping ` set cdcNames \<subseteq> fst ` set T"
  shows "map_of (accumulateCdc sc col T t) (cdcNameMapping n) =
           map_option (\<lambda>x. foldl jsadd x (map (\<lambda>r. cellNumber r col)
                              (filter (attributed (sc (cdcNameMapping n)) n col) t)))
             (map_of T (cdcNameMapping n))"
  using keys unfolding accumulateCdc_def
proof (induction t arbitrary: T)
  case Nil
  then show ?case by (simp add: option.map_ident)
next
  case (Cons r t)
  note step = row_step[OF n Cons.prems, of sc col r]
  have keys': "cdcNameMapping ` set cdcNames \<subseteq> fst ` set (cdcRowStep sc col T r)"
    using step Cons.prems by simp
  show ?case
    using Cons.IH[OF keys'] step by (cases "map_of T (cdcNameMapping n)") auto
qed

lemma map_of_const:
  "map_of (map (\<lambda>k. (k, v)) ks) k = (if k \<in> set ks then Some v else None)"
  by (induction ks) auto

lemma init_total:
  "n \<in> set cdcNames \<Longrightarrow> map_of (map (\<lambda>k. (k, Fin 0)) cdcFullNames) (cdcNameMapping n) = Some (Fin 0)"
proof -
  assume "n \<in> set cdcNames"
  then have "cdcNameMapping n \<in> set cdcFullNames" by (simp add: cdcFullNames_def)
  then show ?thesis by (simp only: map_of_const if_True)
qed

lemma init_keys: "cdcNameMapping ` set cdcNames \<subseteq> fst ` set (map (\<lambda>k. (k, Fin 0)) cdcFullNames)"
  by (force simp: cdcFullNames_def)

lemma accumulate_total:
  assumes "n \<in> set cdcNames"
  shows "totalOf (accumulateCdc sc col (map (\<lambda>k. (k, Fin 0)) cdcFullNames) t) (cdcNameMapping n)
           = Some (locationTotal (sc (cdcNameMapping n)) n col t)"
  using outer_loop[OF assms init_keys, of sc col t] init_total[OF assms]
  by (simp add: totalOf_def locationTotal_def)

lemma recordSearchColumn_rule:
  assumes n: "n \<in> set cdcNames"
  shows "recordSearchColumn (cdcNameMapping n)
           = (if depotStyle n \<and> n \<noteq> thBangBuaThong then 1 else 0)"
proof -
  have b: "thBangBuaThong \<in> set cdcNames" by (simp add: cdcNames_def)
  have m: "cdcNameMapping thBangBuaThong = thKhlang @ thBangBuaThong"
    by (simp add: cdcNameMapping_def)
  have "cdcNameMapping n = thKhlang @ thBangBuaThong \<longleftrightarrow> n = thBangBuaThong"
    using inj_fullNames[OF b n] m by auto
  moreover have "depotStyle thBangBuaThong"
    by (simp add: depotStyle_def m thKhlang_def)
  ultimately show ?thesis
    by (auto simp: recordSearchColumn_def depotStyle_def)
qed

lemma displaySearchColumn_rule:
  "displaySearchColumn (cdcNameMapping n) = (if depotStyle n then 1 else 0)"
  by (simp add: displaySearchColumn_def depotStyle_def)

text \<open>
  C7 (as amended).  For every table, value column and canonical location, the total
  of the location is the sum of the strictly positive values of the rows whose label
  column contains its short name.  In \<open>recordDailyData\<close> the label column is column 1
  for the depot-style locations other than Bang Bua Thong and column 0 for every other
  location, Bang Bua Thong included; in \<open>transformTableData\<close> it is column 1 for every
  depot-style location and column 0 for the others.
\<close>

theorem label_column_rule:
  "\<forall>n \<in> set cdcNames.
     totalOf (computeCdcTotals col t) (cdcNameMapping n)
       = Some (locationTotal (if depotStyle n \<and> n \<noteq> thBangBuaThong then 1 else 0) n col t) \<and>
     totalOf (displayCdcTotals col t) (cdcNameMapping n)
       = Some (locationTotal (if depotStyle n then 1 else 0) n col t)"
proof
  fix n assume n: "n \<in> set cdcNames"
  have "totalOf (computeCdcTotals col t) (cdcNameMapping n)
          = Some (locationTotal (recordSearchColumn (cdcNameMapping n)) n col t)"
    unfolding computeCdcTotals_def by (rule accumulate_total[OF n])
  moreover have "totalOf (displayCdcTotals col t) (cdcNameMapping n)
          = Some (locationTotal (displaySearchColumn (cdcNameMapping n)) n col t)"
    unfolding displayCdcTotals_def cdcOrder_fullNames by (rule accumulate_total[OF n])
  ultimately show "totalOf (computeCdcTotals col t) (cdcNameMapping n)
       = Some (locationTotal (if depotStyle n \<and> n \<noteq> thBangBuaThong then 1 else 0) n col t) \<and>
     totalOf (displayCdcTotals col t) (cdcNameMapping n)
       = Some (locationTotal (if depotStyle n then 1 else 0) n col t)"
    using recordSearchColumn_rule[OF n] displaySearchColumn_rule[of n] by simp
qed

lemma depotStyle_names:
  "depotStyle thBangBuaThong" "depotStyle thMahachai" "depotStyle thSuvarnabhumi"
  "\<not> depotStyle thHadyai" "\<not> depotStyle thKhonKaen"
  by (simp_all add: depotStyle_def name_ev)


text \<open>The depot of Mahachai, named in column 1, gets the row's value in both
  functions.\<close>

theorem label_column_rule_witness:
  "thMahachai \<in> set cdcNames \<and> depotStyle thMahachai \<and> thMahachai \<noteq> thBangBuaThong \<and>
   totalOf (computeCdcTotals 2 mahachaiTable) (cdcNameMapping thMahachai) = Some (Fin 5) \<and>
   totalOf (displayCdcTotals 2 mahachaiTable) (cdcNameMapping thMahachai) = Some (Fin 5)"
proof -
  have n: "thMahachai \<in> set cdcNames" by (simp add: cdcNames_def)
  have ne: "thMahachai \<noteq> thBangBuaThong" by (simp add: name_ev)
  have v: "locationTotal 1 thMahachai 2 mahachaiTable = Fin 5"
    by (simp add: locationTotal_def attributed_def mahachaiTable_def cell_ev str_ev num_ev
          thMahachai_def thKhlang_def)
  from label_column_rule [of 2 mahachaiTable] n
  have "totalOf (computeCdcTotals 2 mahachaiTable) (cdcNameMapping thMahachai)
          = Some (locationTotal (if depotStyle thMahachai \<and> thMahachai \<noteq> thBangBuaThong
                                 then 1 else 0) thMahachai 2 mahachaiTable) \<and>
        totalOf (displayCdcTotals 2 mahachaiTable) (cdcNameMapping thMahachai)
          = Some (locationTotal (if depotStyle thMahachai then 1 else 0) thMahachai 2
                    mahachaiTable)"
    by blast
  then show ?thesis using n ne v depotStyle_names(2) by simp
qed

text \<open>
  C7 as stated fails: Bang Bua Thong is depot-style, yet on a row that names it in
  column 0 only, the record pipeline attributes the value 10 to it (the prefix rule
  would give 0), and the display transformation gives 0: the two do not apply one rule.
\<close>

theorem label_column_counterexample:
  "depotStyle thBangBuaThong \<and>
   locationTotal 1 thBangBuaThong 2 bangBuaThongTable = Fin 0 \<and>
   totalOf (computeCdcTotals 2 bangBuaThongTable) (cdcNameMapping thBangBuaThong) = Some (Fin 10) \<and>
   totalOf (displayCdcTotals 2 bangBuaThongTable) (cdcNameMapping thBangBuaThong) = Some (Fin 0)"
proof -
  have n: "thBangBuaThong \<in> set cdcNames" by (simp add: cdcNames_def)
  have v0: "locationTotal 0 thBangBuaThong 2 bangBuaThongTable = Fin 10"
    by (simp add: locationTotal_def attributed_def bangBuaThongTable_def cell_ev str_ev num_ev
          thBangBuaThong_def)
  have v1: "locationTotal 1 thBangBuaThong 2 bangBuaThongTable = Fin 0"
    by (simp add: locationTotal_def attributed_def bangBuaThongTable_def cell_ev str_ev num_ev
          thBangBuaThong_def)
  have r: "recordSearchColumn (cdcNameMapping thBangBuaThong) = 0"
    by (simp add: recordSearchColumn_def cdcNameMapping_def)
  have d: "displaySearchColumn (cdcNameMapping thBangBuaThong) = 1"
    using depotStyle_names(1) by (simp add: displaySearchColumn_rule)
  have "totalOf (computeCdcTotals 2 bangBuaThongTable) (cdcNameMapping thBangBuaThong)
          = Some (Fin 10)"
    unfolding computeCdcTotals_def using accumulate_total[OF n, of recordSearchColumn 2] r v0
    by simp
  moreover have "totalOf (displayCdcTotals 2 bangBuaThongTable) (cdcNameMapping thBangBuaThong)
          = Some (Fin 0)"
    unfolding displayCdcTotals_def cdcOrder_fullNames
    using accumulate_total[OF n, of displaySearchColumn 2] d v1 by simp
  ultimately show ?thesis using v1 depotStyle_names(1) by simp
qed

lemma totalSum_buildRecord:
  "totalSum (buildRecord d n h t c) = computeTotalSum (categoryColumn c) t"
  by (simp add: buildRecord_def)

text \<open>
  C2 (as amended).  In every record that \<open>recordDailyData\<close> creates, the grand total is
  the value of the first total-indicator row with a truthy value cell when that value
  is not 0; otherwise it is the sum of all strictly positive parsed values of the
  category's value column, over every row of the table, attributed to a location or
  not.
\<close>

theorem fallback_total:
  assumes "recordDailyData records now tableData text = (Success d results, records')"
    and "(c, r) \<in> set results"
  shows "totalSum r =
     (if isZero (searchTotalRow (categoryColumn c) (hd tableData))
      then positiveColumnSum (categoryColumn c) (hd tableData)
      else searchTotalRow (categoryColumn c) (hd tableData))"
proof (cases tableData)
  case Nil
  then show ?thesis using assms by (simp add: recordDailyData_Nil)
next
  case (Cons t ts)
  let ?h = "fst (validationSums t)"
  from assms Cons have
    "results = snd (foldl (categoryStep d now ?h t) (records, []) [Orange, Yuzu])"
    by (auto simp: recordDailyData_cases Let_def split: if_splits option.splits)
  then have "r = buildRecord d (now c) ?h t c"
    using assms(2) results_built by blast
  then show ?thesis
    using Cons by (simp add: totalSum_buildRecord computeTotalSum_eq)
qed


lemma mixedTable_sums: "validationSums mixedTable = (Fin 10, Fin 0)"
  by (simp add: validationSums_def validationStep_def mixedTable_def signalTable_def cell_ev
        str_ev num_ev thHadyai_def thWanThi_def)

lemma mixedTable_date: "extractDate mixedTable [] = Some (asc ''18/10/2025'')"
  by (simp add: date_ev mixedTable_def signalTable_def str_ev)

lemma recordDailyData_mixedTable:
  "recordDailyData emptyRecords noClock [mixedTable] [] =
     (Success (asc ''18/10/2025'')
        [(Orange, buildRecord (asc ''18/10/2025'') [] (Fin 10) mixedTable Orange),
         (Yuzu, buildRecord (asc ''18/10/2025'') [] (Fin 10) mixedTable Yuzu)],
      \<lparr> orange = [buildRecord (asc ''18/10/2025'') [] (Fin 10) mixedTable Orange],
        yuzu = [buildRecord (asc ''18/10/2025'') [] (Fin 10) mixedTable Yuzu] \<rparr>)"
  by (simp add: recordDailyData_cases gateFails_def mixedTable_sums mixedTable_date
        isZero_def categoryStep_def isDateRecorded_def emptyRecords_def noClock_def Let_def)

lemma mixedTable_noTotalRow: "searchTotalRow 2 mixedTable = Fin 0"
  by (simp add: mixedTable_def signalTable_def foundTotal_def totalIndicators_def cell_ev
        str_ev thYotRuam_def thRuam_def thWanThi_def thHadyai_def)

lemma mixedTable_columnSum: "positiveColumnSum 2 mixedTable = Fin 15"
  by (simp add: positiveColumnSum_def columnValue_def mixedTable_def signalTable_def cell_ev
        str_ev num_ev)

lemma mixedTable_cdcTotals:
  "computeCdcTotals 2 mixedTable =
     [(thKhlang @ thBangBuaThong, Fin 0), (thNakhonRatchasima, Fin 0), (thNakhonSawan, Fin 0),
      (thChonburi, Fin 0), (thKhlang @ thMahachai, Fin 0), (thKhlang @ thSuvarnabhumi, Fin 0),
      (thHadyai, Fin 10), (thPhuket, Fin 0), (thChiangMai, Fin 0), (thSurat, Fin 0),
      (thKhonKaen, Fin 0)]"
  by (simp add: computeCdcTotals_def accumulateCdc_def cdcRowStep_def cdcNameStep_def
        addTo_def recordSearchColumn_def cdcFullNames_def mixedTable_def signalTable_def
        name_ev cell_ev str_ev num_ev thWanThi_def)

text \<open>
  C2 as stated fails: with no total row, a row that names no location and holds 5 is
  counted in the grand total (15) but in no location total (their sum is 10).
\<close>

theorem fallback_total_counterexample:
  "recordDailyData emptyRecords noClock [mixedTable] [] =
     (Success (asc ''18/10/2025'')
        [(Orange, buildRecord (asc ''18/10/2025'') [] (Fin 10) mixedTable Orange),
         (Yuzu, buildRecord (asc ''18/10/2025'') [] (Fin 10) mixedTable Yuzu)],
      \<lparr> orange = [buildRecord (asc ''18/10/2025'') [] (Fin 10) mixedTable Orange],
        yuzu = [buildRecord (asc ''18/10/2025'') [] (Fin 10) mixedTable Yuzu] \<rparr>) \<and>
   isZero (searchTotalRow (categoryColumn Orange) mixedTable) \<and>
   totalSum (buildRecord (asc ''18/10/2025'') [] (Fin 10) mixedTable Orange) = Fin 15 \<and>
   locationSum (cdcTotals (buildRecord (asc ''18/10/2025'') [] (Fin 10) mixedTable Orange))
     = Fin 10"
proof -
  have "locationSum (computeCdcTotals 2 mixedTable) = Fin 10"
    unfolding mixedTable_cdcTotals by (simp add: locationSum_def)
  moreover have "computeTotalSum 2 mixedTable = Fin 15"
    by (simp add: computeTotalSum_eq mixedTable_noTotalRow mixedTable_columnSum isZero_def)
  ultimately show ?thesis
    using recordDailyData_mixedTable mixedTable_noTotalRow
    by (simp add: buildRecord_def isZero_def)
qed

text \<open>On the same table the theorem gives the column sum 15 for the Orange record.\<close>

theorem fallback_total_witness:
  "recordDailyData emptyRecords noClock [mixedTable] [] =
     (Success (asc ''18/10/2025'')
        [(Orange, buildRecord (asc ''18/10/2025'') [] (Fin 10) mixedTable Orange),
         (Yuzu, buildRecord (asc ''18/10/2025'') [] (Fin 10) mixedTable Yuzu)],
      \<lparr> orange = [buildRecord (asc ''18/10/2025'') [] (Fin 10) mixedTable Orange],
        yuzu = [buildRecord (asc ''18/10/2025'') [] (Fin 10) mixedTable Yuzu] \<rparr>) \<and>
   (Orange, buildRecord (asc ''18/10/2025'') [] (Fin 10) mixedTable Orange)
     \<in> set [(Orange, buildRecord (asc ''18/10/2025'') [] (Fin 10) mixedTable Orange),
            (Yuzu, buildRecord (asc ''18/10/2025'') [] (Fin 10) mixedTable Yuzu)] \<and>
   totalSum (buildRecord (asc ''18/10/2025'') [] (Fin 10) mixedTable Orange)
     = positiveColumnSum 2 mixedTable \<and>
   positiveColumnSum 2 mixedTable = Fin 15"
proof -
  have m: "(Orange, buildRecord (asc ''18/10/2025'') [] (Fin 10) mixedTable Orange)
     \<in> set [(Orange, buildRecord (asc ''18/10/2025'') [] (Fin 10) mixedTable Orange),
            (Yuzu, buildRecord (asc ''18/10/2025'') [] (Fin 10) mixedTable Yuzu)]"
    by simp
  from fallback_total [OF recordDailyData_mixedTable m]
  have "totalSum (buildRecord (asc ''18/10/2025'') [] (Fin 10) mixedTable Orange)
     = positiveColumnSum 2 mixedTable"
    by (simp add: mixedTable_noTotalRow isZero_def)
  then show ?thesis
    using recordDailyData_mixedTable mixedTable_columnSum m by simp
qed

section \<open>The header scan: results\<close>

lemma lastOr_append:
  "lastOr d (xs @ ys) = lastOr (lastOr d xs) ys"
  by (simp add: lastOr_def)

lemma lastOr_Nil: "lastOr d [] = d"
  by (simp add: lastOr_def)

lemma lastOr_single: "lastOr d [(i, c)] = int i"
  by (simp add: lastOr_def)

lemma scanCells_closed:
  "scanCells k cs (n, temp, d, t) =
     (n + length (filter resolves cs), temp @ resolvedFrom k cs,
      lastOr d (labelCells isDateLabel k cs), lastOr t (labelCells isTotalLabel k cs))"
proof (induction cs arbitrary: k n temp d t)
  case Nil
  then show ?case by (simp add: resolvedFrom_def labelCells_def lastOr_Nil)
next
  case (Cons c cs)
  have step: "scanCell k c (n, temp, d, t) =
     (n + (if resolves c then 1 else 0),
      temp @ (if resolves c then [(k, the (findCdcName (trim (toStringX c))))] else []),
      (if isDateLabel (trim (toStringX c)) then int k else d),
      (if isTotalLabel (trim (toStringX c)) then int k else t))"
    by (auto simp: scanCell_def resolves_def Let_def split: option.splits)
  have d: "lastOr d (labelCells isDateLabel k (c # cs)) =
           lastOr (if isDateLabel (trim (toStringX c)) then int k else d)
             (labelCells isDateLabel (Suc k) cs)"
    using lastOr_append[of d "[(k, c)]" "labelCells isDateLabel (Suc k) cs"]
    by (simp add: labelCells_def lastOr_single)
  have t: "lastOr t (labelCells isTotalLabel k (c # cs)) =
           lastOr (if isTotalLabel (trim (toStringX c)) then int k else t)
             (labelCells isTotalLabel (Suc k) cs)"
    using lastOr_append[of t "[(k, c)]" "labelCells isTotalLabel (Suc k) cs"]
    by (simp add: labelCells_def lastOr_single)
  show ?case
    unfolding scanCells.simps step Cons.IH d t
    by (simp add: resolvedFrom_def)
qed


lemma lastLabel_Nil: "lastLabel P [] d = d"
  by (simp add: lastLabel_def lastOr_Nil)

lemma lastLabel_Cons:
  "lastLabel P (r # rows) d = lastLabel P rows (lastOr d (labelCells P 0 r))"
  by (simp add: lastLabel_def lastOr_append)

lemma scanRows_closed:
  "scanRows k rs d t =
     (let h = length (takeWhile (\<lambda>r. cdcCountOf r < 5) rs)
      in if h < length rs
         then Some \<lparr> headerRowIndex = k + h,
                     cdcColumns = resolvedColumns (rs ! h),
                     dateColumnIndex = lastLabel isDateLabel (take (Suc h) rs) d,
                     totalColumnIndex = lastLabel isTotalLabel (take (Suc h) rs) t \<rparr>
         else None)"
proof (induction rs arbitrary: k d t)
  case Nil
  then show ?case by simp
next
  case (Cons r rs)
  have row: "scanCells 0 r (0, [], d, t) =
     (cdcCountOf r, resolvedColumns r,
      lastOr d (labelCells isDateLabel 0 r), lastOr t (labelCells isTotalLabel 0 r))"
    by (simp add: scanCells_closed cdcCountOf_def resolvedColumns_def)
  show ?case
  proof (cases "cdcCountOf r < 5")
    case True
    then show ?thesis
      by (simp add: row Cons.IH Let_def lastLabel_Cons)
  next
    case False
    then show ?thesis
      by (simp add: row lastLabel_Cons lastLabel_Nil)
  qed
qed

text \<open>
  C3 (as amended).  The header scan of \<open>parseAndMigrateSheet\<close> accepts the first row,
  among the first 50 rows, in which at least 5 cells resolve to a canonical location
  (cells are counted, so a row with 4 resolving cells is never accepted and one with 5
  is).  The Layout holds the index of that row, the resolving columns of that row
  with their locations, and as date-column (total-column) index the column of the last
  date-label (total-label) cell met in the rows scanned so far, the header row last,
  or \<open>-1\<close> when there was none.  When no row within the bound qualifies, the function
  returns zero counts and no records and leaves the database as it was.
\<close>

theorem header_scan:
  "scanHeader sheetData =
     (let rows = take 50 sheetData;
          h = length (takeWhile (\<lambda>r. cdcCountOf r < 5) rows)
      in if h < length rows
         then Some \<lparr> headerRowIndex = h,
                     cdcColumns = resolvedColumns (rows ! h),
                     dateColumnIndex = lastLabel isDateLabel (take (Suc h) rows) (- 1),
                     totalColumnIndex = lastLabel isTotalLabel (take (Suc h) rows) (- 1) \<rparr>
         else None) \<and>
   (scanHeader sheetData = None \<longrightarrow>
      parseAndMigrateSheet dbIsDateRecorded dbSave now db sheetData cat dryRun
        = \<lparr> processed = 0, skipped = 0, produced = [], store = db \<rparr>)"
  by (simp add: scanHeader_def scanRows_closed Let_def parseAndMigrateSheet_def)

lemmas scan_ev = resolves_def findCdcName_def CDC_VARIATIONS_def CDC_NAME_TO_FULL_def
  isDateLabel_def isTotalLabel_def thWanThi_def thRuam_def thYotRuam_def

lemma resolves_names:
  "resolves (XStr thBangBuaThong)" "resolves (XStr (asc ''NMA''))" "resolves (XStr thChonburi)"
  "resolves (XStr thHadyai)" "resolves (XStr thPhuket)" "\<not> resolves (XStr (asc ''Date''))"
  by (simp_all add: scan_ev name_ev str_ev)

lemma cdcCountOf_samples:
  "cdcCountOf sameFiveRow = 5" "cdcCountOf fiveNamesRow = 5" "cdcCountOf fourNamesRow = 4"
  "cdcCountOf titleRow = 0"
  by (simp_all add: cdcCountOf_def sameFiveRow_def fiveNamesRow_def fourNamesRow_def
        titleRow_def resolves_names numeral_eq_Suc)


text \<open>A sheet whose only row has 4 resolving cells has no header and produces
  nothing; with a row of 5 below it, that row is the header.\<close>

theorem header_scan_witness:
  "scanHeader [fourNamesRow] = None \<and>
   parseAndMigrateSheet stubIsDateRecorded stubSave noStamp [] [fourNamesRow] SOrange False
     = \<lparr> processed = 0, skipped = 0, produced = [], store = [] \<rparr> \<and>
   map_option headerRowIndex (scanHeader [fourNamesRow, fiveNamesRow]) = Some 1"
proof -
  note four = header_scan [of "[fourNamesRow]" stubIsDateRecorded stubSave noStamp "[]"
                              SOrange False]
  have none: "scanHeader [fourNamesRow] = None"
    using four by (simp add: cdcCountOf_samples)
  have five: "map_option headerRowIndex (scanHeader [fourNamesRow, fiveNamesRow]) = Some 1"
    using header_scan [of "[fourNamesRow, fiveNamesRow]" stubIsDateRecorded stubSave
                          noStamp "[]" SOrange False]
    by (simp add: cdcCountOf_samples Let_def)
  show ?thesis using four none five by simp
qed

lemma distinctLocations_sameFiveRow: "distinctLocations sameFiveRow = 1"
  by (simp add: distinctLocations_def resolvedColumns_def resolvedFrom_def sameFiveRow_def
        enumerate_eq_zip numeral_eq_Suc upt_rec resolves_names)

lemma fiveNamesRow_noDateLabel: "labelCells isDateLabel 0 fiveNamesRow = []"
  by (simp add: labelCells_def fiveNamesRow_def enumerate_eq_zip upt_rec isDateLabel_def
        thWanThi_def name_ev str_ev)

lemma titleRow_dateLabel: "labelCells isDateLabel 0 titleRow = [(0, XStr (asc ''Date''))]"
  by (simp add: labelCells_def titleRow_def isDateLabel_def thWanThi_def str_ev)

text \<open>
  C3 as stated fails: a row whose five cells all name the same location is accepted,
  with one distinct location; and a date label in the title row above the header gives
  the Layout its date column, though the header row itself has no date label.
\<close>

theorem header_scan_counterexample:
  "map_option headerRowIndex (scanHeader [sameFiveRow]) = Some 0 \<and>
   distinctLocations sameFiveRow = 1 \<and>
   map_option headerRowIndex (scanHeader [titleRow, fiveNamesRow]) = Some 1 \<and>
   labelCells isDateLabel 0 fiveNamesRow = [] \<and>
   map_option dateColumnIndex (scanHeader [titleRow, fiveNamesRow]) = Some 0"
proof -
  have a: "map_option headerRowIndex (scanHeader [sameFiveRow]) = Some 0"
    by (simp add: scanHeader_def scanRows_closed cdcCountOf_samples Let_def)
  have b: "map_option headerRowIndex (scanHeader [titleRow, fiveNamesRow]) = Some 1"
    by (simp add: scanHeader_def scanRows_closed cdcCountOf_samples Let_def)
  have c: "map_option dateColumnIndex (scanHeader [titleRow, fiveNamesRow]) = Some 0"
    by (simp add: scanHeader_def scanRows_closed cdcCountOf_samples Let_def lastLabel_def
          titleRow_dateLabel fiveNamesRow_noDateLabel lastOr_def)
  show ?thesis
    using a b c distinctLocations_sameFiveRow fiveNamesRow_noDateLabel by simp
qed

section \<open>Date parsing: results\<close>











































section \<open>Quantity parsing: results\<close>

lemma isInteger_mathRound: "isInteger (mathRound x) = isFinite x"
  by (cases x) simp_all

lemma isFinite_mathRound: "isFinite (mathRound x) = isFinite x"
  by (cases x) simp_all

lemma mathRound_orZero_NaN:
  "(if isNaN x then Fin 0 else mathRound x) = mathRound (orZero x)"
  by (cases x) (simp_all add: isNaN_def floor_eq_iff)

lemma parseFloat_words:
  "parseFloat (asc ''true'') = NaN" "parseFloat (asc ''false'') = NaN"
  by (simp_all add: num_ev str_ev)

lemma parseNumericValue_XStr:
  "parseNumericValue (XStr s) = mathRound (orZero (parseFloat (stripCommas s)))"
proof (cases "s = []")
  case True
  then show ?thesis
    by (simp add: parseNumericValue_def parseFloat_def stripCommas_def floor_eq_iff)
next
  case False
  then show ?thesis
    using mathRound_orZero_NaN[of "parseFloat (stripCommas s)"]
    by (simp add: parseNumericValue_def Let_def)
qed

lemma parseNumericValue_XBool: "parseNumericValue (XBool b) = Fin 0"
proof -
  have "stripCommas (asc ''true'') = asc ''true''" "stripCommas (asc ''false'') = asc ''false''"
    by (simp_all add: stripCommas_def asc_def)
  then show ?thesis
    by (cases b) (simp_all add: parseNumericValue_def parseFloat_words isNaN_def)
qed

lemma mathRound_nearest:
  "mathRound (Fin q) = Fin (of_int \<lfloor>q + 1 / 2\<rfloor>) \<and> \<bar>q - of_int \<lfloor>q + 1 / 2\<rfloor>\<bar> \<le> 1 / 2"
proof -
  have "of_int \<lfloor>q + 1 / 2\<rfloor> \<le> q + 1 / 2" "q + 1 / 2 < of_int \<lfloor>q + 1 / 2\<rfloor> + 1"
    by linarith+
  then have "\<bar>q - of_int \<lfloor>q + 1 / 2\<rfloor>\<bar> \<le> 1 / 2" by linarith
  then show ?thesis by simp
qed

text \<open>
  C9 (as amended).  \<open>parseNumericValue\<close> is total over the cell values: \<open>null\<close>,
  \<open>undefined\<close> and the empty string yield 0; a number is rounded to the nearest integer,
  a half upwards; a text has its commas stripped, is parsed as a float and rounded, and
  yields 0 when it does not parse; negative values pass through; every finite result
  is an integer.  The quantity that the record pipeline reads from the same text is the
  unrounded value: \<open>parseNumericValue\<close> is its rounding; and a quantity that is not
  strictly positive changes no location total there.
\<close>

theorem parseNumericValue_total:
  "parseNumericValue XNull = Fin 0 \<and> parseNumericValue XUndefined = Fin 0 \<and>
   parseNumericValue (XStr []) = Fin 0 \<and> parseNumericValue (XBool b) = Fin 0 \<and>
   parseNumericValue (XNum n) = mathRound n \<and>
   parseNumericValue (XStr s) = mathRound (orZero (parseFloat (stripCommas s))) \<and>
   parseNumericValue (XStr s) = mathRound (cellNumber [Str s] 0) \<and>
   mathRound (Fin q) = Fin (of_int \<lfloor>q + 1 / 2\<rfloor>) \<and> \<bar>q - of_int \<lfloor>q + 1 / 2\<rfloor>\<bar> \<le> 1 / 2 \<and>
   isInteger (parseNumericValue v) = isFinite (parseNumericValue v) \<and>
   cdcNameStep searchColumn columnIndex r totals cdcName =
     (if gtZero (cellNumber r columnIndex)
      then cdcNameStep searchColumn columnIndex r totals cdcName else totals)"
proof -
  have int: "isInteger (parseNumericValue v) = isFinite (parseNumericValue v)"
  proof (cases v)
    case (XStr s)
    then show ?thesis
      by (simp only: parseNumericValue_XStr isInteger_mathRound isFinite_mathRound)
  next
    case (XNum n)
    then show ?thesis
      by (simp add: parseNumericValue_def isInteger_mathRound isFinite_mathRound)
  qed (simp_all add: parseNumericValue_XBool, simp_all add: parseNumericValue_def)
  have cell: "cellNumber [Str s] 0 = orZero (parseFloat (stripCommas s))"
    by (simp add: cellNumber_def cellAt_def)
  have e: "parseNumericValue (XStr []) = Fin 0"
    by (simp add: parseNumericValue_def)
  have pos: "cdcNameStep searchColumn columnIndex r totals cdcName =
     (if gtZero (cellNumber r columnIndex)
      then cdcNameStep searchColumn columnIndex r totals cdcName else totals)"
    by (simp add: cdcNameStep_def Let_def)
  have rest: "parseNumericValue XNull = Fin 0" "parseNumericValue XUndefined = Fin 0"
    "parseNumericValue (XNum n) = mathRound n"
    by (simp_all add: parseNumericValue_def)
  show ?thesis
    using int mathRound_nearest[of q] parseNumericValue_XStr[of s] parseNumericValue_XBool[of b]
      cell e pos rest
    by (simp only: simp_thms)
qed

text \<open>The examples of the claim hold for \<open>parseNumericValue\<close>.\<close>

lemma parseNumericValue_examples:
  "parseNumericValue (XStr (asc ''1,234'')) = Fin 1234"
  "parseNumericValue (XStr (asc ''12.6'')) = Fin 13"
  "parseNumericValue (XStr (asc ''-5'')) = Fin (- 5)"
  "parseNumericValue (XStr (asc ''-2.5'')) = Fin (- 2)"
  "parseNumericValue (XStr (asc ''abc'')) = Fin 0"
proof -
  have f: "\<lfloor>- (9 / 2) :: rat\<rfloor> = - 5" "\<lfloor>- 2 :: rat\<rfloor> = - 2" "\<lfloor>131 / 10 :: rat\<rfloor> = 13"
    "\<lfloor>2469 / 2 :: rat\<rfloor> = 1234" "\<lfloor>1 / 2 :: rat\<rfloor> = 0"
    by (simp_all add: floor_eq_iff)
  show "parseNumericValue (XStr (asc ''1,234'')) = Fin 1234"
    "parseNumericValue (XStr (asc ''12.6'')) = Fin 13"
    "parseNumericValue (XStr (asc ''-5'')) = Fin (- 5)"
    "parseNumericValue (XStr (asc ''-2.5'')) = Fin (- 2)"
    "parseNumericValue (XStr (asc ''abc'')) = Fin 0"
    by (simp_all add: parseNumericValue_XStr num_ev str_ev f)
qed

text \<open>A half rounds upwards.\<close>

lemma parseNumericValue_half: "parseNumericValue (XNum (Fin (25 / 2))) = Fin 13"
  by (simp add: parseNumericValue_def floor_eq_iff)

text \<open>A text that reads \<open>Infinity\<close> parses to the infinite number, which \<open>isNaN\<close> does
  not catch and \<open>Math.round\<close> returns as it is.\<close>

lemma parseNumericValue_Infinity:
  "parseNumericValue (XStr (asc ''Infinity'')) = PosInf"
  by (simp add: parseNumericValue_XStr num_ev str_ev)

text \<open>
  C9 as stated fails for the record pipeline: the cell \<open>12.6\<close> is read as 12.6, not
  13, and is attributed so to its location; the cell \<open>-5\<close> is read as \<open>-5\<close> and then left
  out of the location total.
\<close>

theorem parseNumericValue_counterexample:
  "cellNumber (hd fractionTable) 2 = Fin (63 / 5) \<and> \<not> isInteger (Fin (63 / 5)) \<and>
   totalOf (computeCdcTotals 2 fractionTable) thHadyai = Some (Fin (63 / 5)) \<and>
   parseNumericValue (XStr (asc ''12.6'')) = Fin 13 \<and>
   cellNumber (hd minusTable) 2 = Fin (- 5) \<and>
   totalOf (computeCdcTotals 2 minusTable) thHadyai = Some (Fin 0)"
proof -
  have n: "thHadyai \<in> set cdcNames" by (simp add: cdcNames_def)
  have f: "cellNumber (hd fractionTable) 2 = Fin (63 / 5)"
    by (simp add: fractionTable_def cell_ev str_ev num_ev)
  have m: "cellNumber (hd minusTable) 2 = Fin (- 5)"
    by (simp add: minusTable_def cell_ev str_ev num_ev)
  have c: "recordSearchColumn (cdcNameMapping thHadyai) = 0" "cdcNameMapping thHadyai = thHadyai"
    by (simp_all add: recordSearchColumn_def name_ev)
  have lf: "locationTotal 0 thHadyai 2 fractionTable = Fin (63 / 5)"
    by (simp add: locationTotal_def attributed_def fractionTable_def cell_ev str_ev num_ev
          thHadyai_def)
  have lm: "locationTotal 0 thHadyai 2 minusTable = Fin 0"
    by (simp add: locationTotal_def attributed_def minusTable_def cell_ev str_ev num_ev
          thHadyai_def)
  have tf: "totalOf (computeCdcTotals 2 fractionTable) thHadyai = Some (Fin (63 / 5))"
    unfolding computeCdcTotals_def
    using accumulate_total[OF n, of recordSearchColumn 2 fractionTable] c lf by simp
  have tm: "totalOf (computeCdcTotals 2 minusTable) thHadyai = Some (Fin 0)"
    unfolding computeCdcTotals_def
    using accumulate_total[OF n, of recordSearchColumn 2 minusTable] c lm by simp
  have ni: "\<not> isInteger (Fin (63 / 5))"
  proof
    assume "isInteger (Fin (63 / 5))"
    then obtain k :: int where "(63 / 5 :: rat) = of_int k" by (auto simp: Ints_def)
    then have "(63 :: rat) = of_int (5 * k)" by simp
    then have "(63 :: int) = 5 * k" using of_int_eq_iff[of 63 "5 * k", where 'a=rat] by simp
    then show False by presburger
  qed
  show ?thesis
    using f m tf tm ni parseNumericValue_examples(2) by simp
qed

end
